theory Spec2Isabelle
  imports Complex_Main "HOL-Library.Product_Lexorder" "HOL-Library.Char_ord"
    "HOL-Library.List_Lexorder"
begin

section \<open>The design rule checker of pcbnew (\<^verbatim>\<open>pcbnew/drc/drc.cpp\<close>)\<close>

text \<open>
  A shallow embedding of the \<^verbatim>\<open>DRC\<close> class of \<^verbatim>\<open>src/pcbnew/drc/drc.cpp\<close>.

  Conventions of the embedding.
  \<^item> A C++ \<^verbatim>\<open>int\<close> is a HOL \<open>int\<close>; the operations are the mathematical ones, which is
    what the C++ operations compute as long as no signed overflow occurs (signed overflow
    is undefined behaviour in C++). Division is written \<open>c_div\<close>: C++ truncates towards zero,
    HOL's \<open>div\<close> rounds down.
  \<^item> A board item (pad, zone, footprint, track) is referred to by pointer in the source; a
    pointer is a natural number here (\<open>item_ref\<close>), and the fields the checker reads are
    fields of a record.
  \<^item> \<^verbatim>\<open>addMarkerToPcb\<close> is the only way a violation leaves a checker. Every checker of the
    model returns the list of markers it hands to \<^verbatim>\<open>addMarkerToPcb\<close>, in the order of the
    calls; \<open>addMarkersToPcb\<close> then applies the filter of \<^verbatim>\<open>addMarkerToPcb\<close> (markers whose
    error code the design settings ignore are deleted) and commits the rest to the board.
  \<^item> Functions of other translation units (geometry primitives, the pad and zone classes,
    the connectivity and netlist collaborators) are parameters of the functions that call
    them, collected in records of functions.
\<close>

subsection \<open>Integers and points\<close>

definition c_div :: "int \<Rightarrow> int \<Rightarrow> int" where
  \<comment> \<open>C++ integer division: the quotient truncated towards zero.\<close>
  "c_div a b = sgn a * sgn b * (\<bar>a\<bar> div \<bar>b\<bar>)"

type_synonym wxPoint = "int \<times> int"

type_synonym item_ref = nat

subsection \<open>Violations and markers\<close>

datatype DRC_CODE =
    DRCE_UNCONNECTED_ITEMS
  | DRCE_ZONES_INTERSECT
  | DRCE_ZONES_TOO_CLOSE
  | DRCE_ZONE_HAS_EMPTY_NET
  | DRCE_HOLE_NEAR_PAD
  | DRCE_PAD_NEAR_PAD
  | DRCE_NETCLASS_CLEARANCE
  | DRCE_NETCLASS_TRACKWIDTH
  | DRCE_NETCLASS_VIASIZE
  | DRCE_NETCLASS_VIADRILLSIZE
  | DRCE_NETCLASS_VIAANNULUS
  | DRCE_NETCLASS_uVIASIZE
  | DRCE_NETCLASS_uVIADRILLSIZE
  | DRCE_DUPLICATE_FOOTPRINT
  | DRCE_MISSING_FOOTPRINT
  | DRCE_EXTRA_FOOTPRINT
  | DRCE_OVERLAPPING_FOOTPRINTS
  | DRCE_MISSING_COURTYARD
  | DRCE_MALFORMED_COURTYARD
  | DRCE_PTH_IN_COURTYARD
  | DRCE_NPTH_IN_COURTYARD
  | DRCE_DISABLED_LAYER_ITEM
  | DRCE_UNRESOLVED_VARIABLE
  | DRCE_OTHER

text \<open>
  An error message is built by \<^verbatim>\<open>wxString::Printf\<close> from a format and its arguments; lengths
  go through \<^verbatim>\<open>MessageTextFromValue\<close>. The model keeps the format and the arguments apart
  instead of rendering them.
\<close>

datatype MSG_ARG = ArgText string | ArgValue int

datatype DRC_MSG = Printf string "MSG_ARG list"

record DRC_ITEM =
  errorCode :: DRC_CODE
  errorMessage :: "DRC_MSG option"
  mainItem :: "item_ref option"
  auxItem :: "item_ref option"

record MARKER_PCB =
  rcItem :: DRC_ITEM
  markerPos :: wxPoint

definition new_DRC_ITEM :: "DRC_CODE \<Rightarrow> DRC_ITEM" where
  "new_DRC_ITEM c = \<lparr>errorCode = c, errorMessage = None, mainItem = None, auxItem = None\<rparr>"

definition SetErrorMessage :: "DRC_MSG \<Rightarrow> DRC_ITEM \<Rightarrow> DRC_ITEM" where
  "SetErrorMessage m d = d\<lparr>errorMessage := Some m\<rparr>"

definition SetItems1 :: "item_ref \<Rightarrow> DRC_ITEM \<Rightarrow> DRC_ITEM" where
  "SetItems1 a d = d\<lparr>mainItem := Some a, auxItem := None\<rparr>"

definition SetItems2 :: "item_ref \<Rightarrow> item_ref \<Rightarrow> DRC_ITEM \<Rightarrow> DRC_ITEM" where
  "SetItems2 a b d = d\<lparr>mainItem := Some a, auxItem := Some b\<rparr>"

definition new_MARKER_PCB :: "DRC_ITEM \<Rightarrow> wxPoint \<Rightarrow> MARKER_PCB" where
  "new_MARKER_PCB d p = \<lparr>rcItem = d, markerPos = p\<rparr>"

definition markerCode :: "MARKER_PCB \<Rightarrow> DRC_CODE" where
  "markerCode m = errorCode (rcItem m)"

subsection \<open>Net classes and the board-wide minima\<close>

record NETCLASS =
  ncName :: string
  ncClearance :: int
  ncTrackWidth :: int
  ncViaDiameter :: int
  ncViaDrill :: int
  ncuViaDiameter :: int
  ncuViaDrill :: int

text \<open>
  \<^verbatim>\<open>NETCLASSES\<close> holds the Default class on its own and the user classes in a
  \<^verbatim>\<open>std::map\<close> from name to class; \<open>m_NetClasses\<close> is the content of that map in the order
  of its iterator.
\<close>

record NETCLASSES =
  m_Default :: NETCLASS
  m_NetClasses :: "(string \<times> NETCLASS) list"

record BOARD_DESIGN_SETTINGS =
  m_MinClearance :: int
  m_TrackMinWidth :: int
  m_ViasMinSize :: int
  m_MinThroughDrill :: int
  m_ViasMinAnnulus :: int
  m_MicroViasMinSize :: int
  m_MicroViasMinDrill :: int
  Ignore :: "DRC_CODE \<Rightarrow> bool"
  m_NetClassesOf :: NETCLASSES

subsection \<open>\<^verbatim>\<open>DRC::addMarkerToPcb\<close>\<close>

definition addMarkerToPcb :: "BOARD_DESIGN_SETTINGS \<Rightarrow> MARKER_PCB \<Rightarrow> MARKER_PCB list \<Rightarrow> MARKER_PCB list" where
  \<comment> \<open>The marker is deleted when its error code is ignored, and committed to the board
      otherwise.\<close>
  "addMarkerToPcb g m board_markers =
     (if Ignore g (markerCode m) then board_markers else board_markers @ [m])"

fun addMarkersToPcb :: "BOARD_DESIGN_SETTINGS \<Rightarrow> MARKER_PCB list \<Rightarrow> MARKER_PCB list \<Rightarrow> MARKER_PCB list" where
  "addMarkersToPcb g [] board_markers = board_markers"
| "addMarkersToPcb g (m # ms) board_markers = addMarkersToPcb g ms (addMarkerToPcb g m board_markers)"

subsection \<open>\<^verbatim>\<open>DRC::doNetClass\<close> and \<^verbatim>\<open>DRC::testNetClasses\<close>\<close>

definition netclassMarker :: "DRC_CODE \<Rightarrow> string \<Rightarrow> int \<Rightarrow> string \<Rightarrow> int \<Rightarrow> MARKER_PCB" where
  \<comment> \<open>The item and marker every branch of \<^verbatim>\<open>doNetClass\<close> builds: the format, the board
      minimum, the name of the class and the value of the class; the marker is at
      \<^verbatim>\<open>wxPoint()\<close>.\<close>
  "netclassMarker c fmt minimum name actual =
     new_MARKER_PCB
       (SetErrorMessage (Printf fmt [ArgValue minimum, ArgText name, ArgValue actual])
          (new_DRC_ITEM c))
       (0, 0)"

definition report :: "MARKER_PCB \<Rightarrow> bool \<times> MARKER_PCB list \<Rightarrow> bool \<times> MARKER_PCB list" where
  \<comment> \<open>\<^verbatim>\<open>addMarkerToPcb( ... ); ret = false;\<close>\<close>
  "report m st = (False, snd st @ [m])"

definition ncViaAnnulus :: "NETCLASS \<Rightarrow> int" where
  "ncViaAnnulus nc = c_div (ncViaDiameter nc - ncViaDrill nc) 2"

definition doNetClass :: "BOARD_DESIGN_SETTINGS \<Rightarrow> NETCLASS \<Rightarrow> bool \<times> MARKER_PCB list" where
  "doNetClass g nc =
    (let st = (True, []);
         st = (if ncClearance nc < m_MinClearance g
               then report (netclassMarker DRCE_NETCLASS_CLEARANCE
                      '' (board minimum %s; %s netclass %s)''
                      (m_MinClearance g) (ncName nc) (ncClearance nc)) st
               else st);
         st = (if ncTrackWidth nc < m_TrackMinWidth g
               then report (netclassMarker DRCE_NETCLASS_TRACKWIDTH
                      '' (board minimum %s; %s netclass %s)''
                      (m_TrackMinWidth g) (ncName nc) (ncTrackWidth nc)) st
               else st);
         st = (if ncViaDiameter nc < m_ViasMinSize g
               then report (netclassMarker DRCE_NETCLASS_VIASIZE
                      '' (board minimum %s; %s netclass %s)''
                      (m_ViasMinSize g) (ncName nc) (ncViaDiameter nc)) st
               else st);
         st = (if ncViaDrill nc < m_MinThroughDrill g
               then report (netclassMarker DRCE_NETCLASS_VIADRILLSIZE
                      '' (board min through hole %s; %s netclass %s)''
                      (m_MinThroughDrill g) (ncName nc) (ncViaDrill nc)) st
               else st);
         st = (if ncViaAnnulus nc < m_ViasMinAnnulus g
               then report (netclassMarker DRCE_NETCLASS_VIAANNULUS
                      '' (board minimum %s; %s netclass %s)''
                      (m_ViasMinAnnulus g) (ncName nc) (ncViaAnnulus nc)) st
               else st);
         st = (if ncuViaDiameter nc < m_MicroViasMinSize g
               then report (netclassMarker DRCE_NETCLASS_uVIASIZE
                      '' (board minimum %s; %s netclass %s)''
                      (m_MicroViasMinSize g) (ncName nc) (ncuViaDiameter nc)) st
               else st);
         st = (if ncuViaDrill nc < m_MicroViasMinDrill g
               then report (netclassMarker DRCE_NETCLASS_uVIADRILLSIZE
                      '' (board minimum %s; %s netclass %s)''
                      (m_MicroViasMinDrill g) (ncName nc) (ncuViaDrill nc)) st
               else st)
     in st)"

fun testNetClasses_loop :: "BOARD_DESIGN_SETTINGS \<Rightarrow> (string \<times> NETCLASS) list \<Rightarrow> bool \<times> MARKER_PCB list
    \<Rightarrow> bool \<times> MARKER_PCB list" where
  "testNetClasses_loop g [] st = st"
| "testNetClasses_loop g (i # rest) st =
     (let r = doNetClass g (snd i)
      in testNetClasses_loop g rest ((if \<not> fst r then False else fst st), snd st @ snd r))"

definition testNetClasses :: "BOARD_DESIGN_SETTINGS \<Rightarrow> bool \<times> MARKER_PCB list" where
  "testNetClasses g =
     (let netclasses = m_NetClassesOf g;
          r = doNetClass g (m_Default netclasses);
          st = ((if \<not> fst r then False else True), snd r)
      in testNetClasses_loop g (m_NetClasses netclasses) st)"

text \<open>
  The constraints of a class as the specification lists them: the seven fields with their
  board-wide floors, in the order of the checks.
\<close>

definition netclassFields :: "BOARD_DESIGN_SETTINGS \<Rightarrow> NETCLASS \<Rightarrow> (DRC_CODE \<times> int \<times> int) list" where
  "netclassFields g nc =
     [(DRCE_NETCLASS_CLEARANCE, ncClearance nc, m_MinClearance g),
      (DRCE_NETCLASS_TRACKWIDTH, ncTrackWidth nc, m_TrackMinWidth g),
      (DRCE_NETCLASS_VIASIZE, ncViaDiameter nc, m_ViasMinSize g),
      (DRCE_NETCLASS_VIADRILLSIZE, ncViaDrill nc, m_MinThroughDrill g),
      (DRCE_NETCLASS_VIAANNULUS, ncViaAnnulus nc, m_ViasMinAnnulus g),
      (DRCE_NETCLASS_uVIASIZE, ncuViaDiameter nc, m_MicroViasMinSize g),
      (DRCE_NETCLASS_uVIADRILLSIZE, ncuViaDrill nc, m_MicroViasMinDrill g)]"

definition belowFloor :: "BOARD_DESIGN_SETTINGS \<Rightarrow> NETCLASS \<Rightarrow> DRC_CODE list" where
  \<comment> \<open>The fields of a class that are below their floor.\<close>
  "belowFloor g nc = map fst (filter (\<lambda>(c, actual, floor). actual < floor) (netclassFields g nc))"

definition allClasses :: "BOARD_DESIGN_SETTINGS \<Rightarrow> NETCLASS list" where
  \<comment> \<open>The Default class, then every user class.\<close>
  "allClasses g = m_Default (m_NetClassesOf g) # map snd (m_NetClasses (m_NetClassesOf g))"

subsection \<open>Pads\<close>

type_synonym LSET = "nat set"

type_synonym wxSize = "int \<times> int"

datatype PAD_DRILL_SHAPE_T = PAD_DRILL_SHAPE_CIRCLE | PAD_DRILL_SHAPE_OBLONG

datatype PAD_SHAPE_T = PAD_SHAPE_CIRCLE | PAD_SHAPE_RECT | PAD_SHAPE_OVAL | PAD_SHAPE_TRAPEZOID
  | PAD_SHAPE_ROUNDRECT | PAD_SHAPE_CHAMFERED_RECT | PAD_SHAPE_CUSTOM

text \<open>
  The fields of \<^verbatim>\<open>D_PAD\<close> that \<^verbatim>\<open>doPadToPadsDrc\<close> reads or sets. \<open>padRef\<close> is the address of
  the pad, \<open>padParent\<close> the address of its footprint. The orientation is a number of tenths
  of a degree.
\<close>

record D_PAD =
  padRef :: item_ref
  padParent :: item_ref
  padName :: string
  padPosition :: wxPoint
  padSize :: wxSize
  padShape :: PAD_SHAPE_T
  padOrientation :: int
  padDrillSize :: wxSize
  padDrillShape :: PAD_DRILL_SHAPE_T
  padLayerSet :: LSET
  padNetCode :: int

text \<open>
  What \<^verbatim>\<open>doPadToPadsDrc\<close> and \<^verbatim>\<open>testPad2Pad\<close> call in other translation units:
  \<^item> \<open>GetClearance p\<close>: \<^verbatim>\<open>p->GetClearance( nullptr, &source )\<close>, the clearance of the pad and
    the description of its source;
  \<^item> \<open>GetBoundingRadius p\<close>: the radius of the smallest circle that contains the pad;
  \<^item> \<open>checkClearancePadToPad a b minClearance\<close>: the result of the clearance test and the
    value it stores in \<^verbatim>\<open>actual\<close>;
  \<^item> \<open>AllCuMask\<close>: \<^verbatim>\<open>LSET::AllCuMask()\<close>;
  \<^item> \<open>dummypad\<close>: the pad \<^verbatim>\<open>D_PAD dummypad( &dummymodule )\<close> as its constructor leaves it.
\<close>

record PAD_ENV =
  GetClearance :: "D_PAD \<Rightarrow> int \<times> string"
  GetBoundingRadius :: "D_PAD \<Rightarrow> int"
  checkClearancePadToPad :: "D_PAD \<Rightarrow> D_PAD \<Rightarrow> int \<Rightarrow> bool \<times> int"
  AllCuMask :: LSET
  dummypad :: D_PAD

definition PadNameEqual :: "D_PAD \<Rightarrow> D_PAD \<Rightarrow> bool" where
  "PadNameEqual a b \<longleftrightarrow> padName a = padName b"

definition holePad :: "PAD_ENV \<Rightarrow> D_PAD \<Rightarrow> D_PAD" where
  \<comment> \<open>The dummy pad with the position, size, shape and orientation of the hole of a pad.
      The four setters run before each use of the dummy pad, so what an earlier iteration
      stored in it is never read.\<close>
  "holePad E p =
     (dummypad E)\<lparr>
        padLayerSet := AllCuMask E \<union> padLayerSet (dummypad E),
        padPosition := padPosition p,
        padSize := padDrillSize p,
        padShape := (if padDrillShape p = PAD_DRILL_SHAPE_OBLONG then PAD_SHAPE_OVAL else PAD_SHAPE_CIRCLE),
        padOrientation := padOrientation p\<rparr>"

definition clearanceMarker :: "DRC_CODE \<Rightarrow> string \<Rightarrow> int \<Rightarrow> int \<Rightarrow> item_ref \<Rightarrow> item_ref \<Rightarrow> wxPoint
    \<Rightarrow> MARKER_PCB" where
  \<comment> \<open>The item and marker of a clearance violation between two items: the message names
      the source of the clearance, the clearance and the actual value.\<close>
  "clearanceMarker c source minClearance actual a b p =
     new_MARKER_PCB
       (SetItems2 a b
          (SetErrorMessage (Printf '' (%s %s; actual %s)''
              [ArgText source, ArgValue minClearance, ArgValue actual])
            (new_DRC_ITEM c)))
       p"

datatype step = Continue | Return MARKER_PCB

definition holeTests :: "PAD_ENV \<Rightarrow> D_PAD \<Rightarrow> D_PAD \<Rightarrow> step" where
  \<comment> \<open>The two tests between holes and pads of a pair on disjoint copper layers.\<close>
  "holeTests E aRefPad pad =
    (let r1 = checkClearancePadToPad E aRefPad (holePad E pad) (fst (GetClearance E aRefPad));
         r2 = checkClearancePadToPad E pad (holePad E aRefPad) (fst (GetClearance E pad))
     in if fst (padDrillSize pad) \<noteq> 0 \<and> \<not> fst r1
        then Return (clearanceMarker DRCE_HOLE_NEAR_PAD (snd (GetClearance E aRefPad))
               (fst (GetClearance E aRefPad)) (snd r1) (padRef pad) (padRef aRefPad) (padPosition pad))
        else if fst (padDrillSize aRefPad) \<noteq> 0 \<and> \<not> fst r2
        then Return (clearanceMarker DRCE_HOLE_NEAR_PAD (snd (GetClearance E pad))
               (fst (GetClearance E pad)) (snd r2) (padRef aRefPad) (padRef pad) (padPosition aRefPad))
        else Continue)"

definition padStep :: "PAD_ENV \<Rightarrow> D_PAD \<Rightarrow> D_PAD \<Rightarrow> step" where
  \<comment> \<open>The body of the loop of \<^verbatim>\<open>doPadToPadsDrc\<close> after the test of \<^verbatim>\<open>x_limit\<close>.\<close>
  "padStep E aRefPad pad =
    (let all_cu = AllCuMask E;
         layerMask = padLayerSet aRefPad \<inter> all_cu
     in if padLayerSet pad \<inter> layerMask = {} \<and> padLayerSet pad \<inter> all_cu \<noteq> {}
           \<and> padLayerSet aRefPad \<inter> all_cu \<noteq> {}
        then
          (if padPosition pad = padPosition aRefPad \<and> padDrillSize pad = padDrillSize aRefPad
               \<and> padDrillShape pad = padDrillShape aRefPad
               \<and> (padDrillShape aRefPad = PAD_DRILL_SHAPE_CIRCLE
                    \<or> padOrientation pad = padOrientation aRefPad)
           then Continue
           else holeTests E aRefPad pad)
        else if padNetCode pad \<noteq> 0 \<and> padNetCode aRefPad = padNetCode pad then Continue
        else if padParent pad = padParent aRefPad \<and> PadNameEqual pad aRefPad then Continue
        else if (padLayerSet pad \<inter> layerMask = {} \<and> fst (padDrillSize pad) = 0)
                \<or> (padLayerSet aRefPad \<inter> layerMask = {} \<and> fst (padDrillSize aRefPad) = 0)
        then Continue
        else
          (let r = checkClearancePadToPad E aRefPad pad (fst (GetClearance E aRefPad))
           in if \<not> fst r
              then Return (clearanceMarker DRCE_PAD_NEAR_PAD (snd (GetClearance E aRefPad))
                     (fst (GetClearance E aRefPad)) (snd r) (padRef aRefPad) (padRef pad)
                     (padPosition aRefPad))
              else Continue))"

fun doPadToPadsDrc :: "PAD_ENV \<Rightarrow> D_PAD \<Rightarrow> D_PAD list \<Rightarrow> int \<Rightarrow> bool \<times> MARKER_PCB list" where
  \<comment> \<open>The third argument is the range \<^verbatim>\<open>[aStart, aEnd)\<close> of the sorted pad list. The result
      is the value returned and the markers handed to \<^verbatim>\<open>addMarkerToPcb\<close>.\<close>
  "doPadToPadsDrc E aRefPad [] x_limit = (True, [])"
| "doPadToPadsDrc E aRefPad (pad # pad_list) x_limit =
    (if padRef pad = padRef aRefPad then doPadToPadsDrc E aRefPad pad_list x_limit
     else if fst (padPosition pad) > x_limit then (True, [])
     else (case padStep E aRefPad pad of
             Continue \<Rightarrow> doPadToPadsDrc E aRefPad pad_list x_limit
           | Return m \<Rightarrow> (False, [m])))"

fun max_size_loop :: "PAD_ENV \<Rightarrow> D_PAD list \<Rightarrow> int \<Rightarrow> int" where
  "max_size_loop E [] max_size = max_size"
| "max_size_loop E (pad # rest) max_size =
     (let radius = GetBoundingRadius E pad
      in max_size_loop E rest (if radius > max_size then radius else max_size))"

definition x_limit_of :: "PAD_ENV \<Rightarrow> D_PAD \<Rightarrow> int" where
  "x_limit_of E pad = fst (GetClearance E pad) + GetBoundingRadius E pad + fst (padPosition pad)"

fun testPad2Pad_loop :: "PAD_ENV \<Rightarrow> int \<Rightarrow> D_PAD list \<Rightarrow> MARKER_PCB list" where
  "testPad2Pad_loop E max_size [] = []"
| "testPad2Pad_loop E max_size (pad # rest) =
     snd (doPadToPadsDrc E pad (pad # rest) (max_size + x_limit_of E pad))
     @ testPad2Pad_loop E max_size rest"

definition testPad2Pad :: "PAD_ENV \<Rightarrow> D_PAD list \<Rightarrow> MARKER_PCB list" where
  \<comment> \<open>The argument is the list \<^verbatim>\<open>GetSortedPadListByXthenYCoord\<close> fills.\<close>
  "testPad2Pad E sortedPads =
     (if sortedPads = [] then []
      else testPad2Pad_loop E (max_size_loop E sortedPads 0) sortedPads)"

subsection \<open>Zones: \<^verbatim>\<open>DRC::TestZoneToZoneOutlines\<close>\<close>

record ZONE_CONTAINER =
  zoneRef :: item_ref
  zoneLayer :: nat
  zoneNetCode :: int
  zonePriority :: nat
  zoneIsKeepout :: bool
  zonePosition :: wxPoint

type_synonym SEG = "wxPoint \<times> wxPoint"

text \<open>
  A \<^verbatim>\<open>SHAPE_POLY_SET\<close> is read through two iterators only: \<^verbatim>\<open>IterateWithHoles\<close> over its
  vertices and \<^verbatim>\<open>IterateSegmentsWithHoles\<close> over its segments.
\<close>

record SHAPE_POLY_SET =
  polyVertices :: "wxPoint list"
  polySegments :: "SEG list"

text \<open>
  What \<^verbatim>\<open>TestZoneToZoneOutlines\<close> calls in other translation units:
  \<^item> \<open>IsOnCopperLayer z\<close>;
  \<^item> \<open>BuildSmoothedPoly z\<close>: the smoothed outline of the zone (with the colinear corners
    \<^verbatim>\<open>GetColinearCorners\<close> finds on the board);
  \<^item> \<open>Contains poly p\<close>: \<^verbatim>\<open>SHAPE_POLY_SET::Contains\<close>;
  \<^item> \<open>zoneGetClearance a b\<close>: \<^verbatim>\<open>a->GetClearance( b, &clearanceSource )\<close>, the clearance and
    the description of its source;
  \<^item> \<open>GetClearanceBetweenSegments b a max_cl\<close>: the value returned for the segments
    \<open>b\<close> and \<open>a\<close>, both of width 0, and the point left in \<^verbatim>\<open>pt\<close>.
\<close>

record ZONE_ENV =
  IsOnCopperLayer :: "ZONE_CONTAINER \<Rightarrow> bool"
  BuildSmoothedPoly :: "ZONE_CONTAINER \<Rightarrow> SHAPE_POLY_SET"
  Contains :: "SHAPE_POLY_SET \<Rightarrow> wxPoint \<Rightarrow> bool"
  zoneGetClearance :: "ZONE_CONTAINER \<Rightarrow> ZONE_CONTAINER \<Rightarrow> int \<times> string"
  GetClearanceBetweenSegments :: "SEG \<Rightarrow> SEG \<Rightarrow> int \<Rightarrow> int \<times> wxPoint"

definition zonePairSkipped :: "ZONE_CONTAINER \<Rightarrow> ZONE_CONTAINER \<Rightarrow> bool" where
  \<comment> \<open>The five \<^verbatim>\<open>continue\<close> statements at the head of the inner loop.\<close>
  "zonePairSkipped zoneRf zoneToTest =
     (if zoneRef zoneRf = zoneRef zoneToTest then True
      else if zoneLayer zoneRf \<noteq> zoneLayer zoneToTest then True
      else if zoneNetCode zoneRf = zoneNetCode zoneToTest \<and> zoneNetCode zoneRf \<ge> 0 then True
      else if zonePriority zoneRf \<noteq> zonePriority zoneToTest then True
      else if zoneIsKeepout zoneRf \<noteq> zoneIsKeepout zoneToTest then True
      else False)"

definition zone2zoneClearance :: "ZONE_ENV \<Rightarrow> ZONE_CONTAINER \<Rightarrow> ZONE_CONTAINER \<Rightarrow> int" where
  \<comment> \<open>Keepout areas have no clearance: the value is set to 1.\<close>
  "zone2zoneClearance E zoneRf zoneToTest =
     (if zoneIsKeepout zoneRf then 1 else fst (zoneGetClearance E zoneRf zoneToTest))"

definition cornerMarkers :: "ZONE_ENV \<Rightarrow> SHAPE_POLY_SET \<Rightarrow> SHAPE_POLY_SET \<Rightarrow> item_ref \<Rightarrow> item_ref
    \<Rightarrow> MARKER_PCB list" where
  \<comment> \<open>One marker for every vertex of the first outline that the second outline contains.\<close>
  "cornerMarkers E poly other a b =
     map (\<lambda>pt. new_MARKER_PCB (SetItems2 a b (new_DRC_ITEM DRCE_ZONES_INTERSECT)) pt)
       (filter (\<lambda>pt. Contains E other pt) (polyVertices poly))"

fun conflictPoints_update :: "wxPoint \<Rightarrow> int \<Rightarrow> (wxPoint \<times> int) list \<Rightarrow> (wxPoint \<times> int) list" where
  \<comment> \<open>\<^verbatim>\<open>std::map<wxPoint, int>\<close> as the list of its entries in the order of its keys: a
      new key is inserted at its place, a key already there keeps the smaller value.
      The comparison of \<^verbatim>\<open>wxPoint\<close> is not in the sources; it is taken to be by x, then
      by y. It fixes the order of the markers only, not which markers there are.\<close>
  "conflictPoints_update pt d [] = [(pt, d)]"
| "conflictPoints_update pt d ((k, v) # m) =
     (if pt = k then (k, min v d) # m
      else if pt < k then (pt, d) # (k, v) # m
      else (k, v) # conflictPoints_update pt d m)"

definition segmentStep :: "ZONE_ENV \<Rightarrow> int \<Rightarrow> SEG \<Rightarrow> (wxPoint \<times> int) list \<Rightarrow> SEG \<Rightarrow> (wxPoint \<times> int) list" where
  \<comment> \<open>The body of the inner loop over the segments of the tested outline.\<close>
  "segmentStep E clearance refSegment conflictPoints testSegment =
     (let r = GetClearanceBetweenSegments E testSegment refSegment clearance;
          d = fst r;
          pt = snd r
      in if d < clearance then conflictPoints_update pt d conflictPoints else conflictPoints)"

definition zoneConflictPoints :: "ZONE_ENV \<Rightarrow> int \<Rightarrow> SHAPE_POLY_SET \<Rightarrow> SHAPE_POLY_SET \<Rightarrow> (wxPoint \<times> int) list" where
  "zoneConflictPoints E clearance refPoly testPoly =
     foldl (\<lambda>conflictPoints refSegment.
              foldl (segmentStep E clearance refSegment) conflictPoints (polySegments testPoly))
       [] (polySegments refPoly)"

definition conflictMarker :: "string \<Rightarrow> int \<Rightarrow> item_ref \<Rightarrow> item_ref \<Rightarrow> wxPoint \<times> int \<Rightarrow> MARKER_PCB" where
  "conflictMarker clearanceSource clearance a b conflict =
     (let actual = snd conflict;
          drcItem =
            (if actual \<le> 0 then new_DRC_ITEM DRCE_ZONES_INTERSECT
             else SetErrorMessage (Printf '' (%s %s; actual %s)''
                      [ArgText clearanceSource, ArgValue clearance, ArgValue (snd conflict)])
                    (new_DRC_ITEM DRCE_ZONES_TOO_CLOSE))
      in new_MARKER_PCB (SetItems2 a b drcItem) (fst conflict))"

definition segmentMarkers :: "ZONE_ENV \<Rightarrow> ZONE_CONTAINER \<times> SHAPE_POLY_SET \<Rightarrow> ZONE_CONTAINER \<times> SHAPE_POLY_SET
    \<Rightarrow> MARKER_PCB list" where
  \<comment> \<open>The markers of the conflict points of a pair, in the order of the map.\<close>
  "segmentMarkers E ref test =
     (let clearanceSource = snd (zoneGetClearance E (fst ref) (fst test));
          clearance = zone2zoneClearance E (fst ref) (fst test)
      in map (conflictMarker clearanceSource clearance (zoneRef (fst ref)) (zoneRef (fst test)))
           (zoneConflictPoints E clearance (snd ref) (snd test)))"

definition zonePairMarkers :: "ZONE_ENV \<Rightarrow> ZONE_CONTAINER \<times> SHAPE_POLY_SET \<Rightarrow> ZONE_CONTAINER \<times> SHAPE_POLY_SET
    \<Rightarrow> MARKER_PCB list" where
  \<comment> \<open>The examination of a candidate pair: corners of each outline inside the other, then
      the segments.\<close>
  "zonePairMarkers E ref test =
     cornerMarkers E (snd ref) (snd test) (zoneRef (fst ref)) (zoneRef (fst test))
     @ cornerMarkers E (snd test) (snd ref) (zoneRef (fst test)) (zoneRef (fst ref))
     @ segmentMarkers E ref test"

fun zoneInnerLoop :: "ZONE_ENV \<Rightarrow> ZONE_CONTAINER \<times> SHAPE_POLY_SET \<Rightarrow> (ZONE_CONTAINER \<times> SHAPE_POLY_SET) list
    \<Rightarrow> MARKER_PCB list" where
  "zoneInnerLoop E ref [] = []"
| "zoneInnerLoop E ref (test # rest) =
     (if zonePairSkipped (fst ref) (fst test) then [] else zonePairMarkers E ref test)
     @ zoneInnerLoop E ref rest"

fun zoneOuterLoop :: "ZONE_ENV \<Rightarrow> (ZONE_CONTAINER \<times> SHAPE_POLY_SET) list \<Rightarrow> MARKER_PCB list" where
  "zoneOuterLoop E [] = []"
| "zoneOuterLoop E (ref # rest) =
     (if \<not> IsOnCopperLayer E (fst ref) then [] else zoneInnerLoop E ref rest)
     @ zoneOuterLoop E rest"

definition TestZoneToZoneOutlines :: "ZONE_ENV \<Rightarrow> ZONE_CONTAINER list \<Rightarrow> MARKER_PCB list" where
  \<comment> \<open>The argument is the list of the areas of the board; the value returned by the source
      is the length of the result. The smoothed outlines are built first, one per area.\<close>
  "TestZoneToZoneOutlines E areas =
     (let smoothed_polys = map (BuildSmoothedPoly E) areas
      in zoneOuterLoop E (zip areas smoothed_polys))"

text \<open>
  The skip rule as the specification words it: same zone, different layer, same net with a
  net number greater than 0, different priority, keepout against non-keepout.
\<close>

definition specSkipped :: "ZONE_CONTAINER \<Rightarrow> ZONE_CONTAINER \<Rightarrow> bool" where
  "specSkipped a b \<longleftrightarrow>
     zoneRef a = zoneRef b
     \<or> zoneLayer a \<noteq> zoneLayer b
     \<or> (zoneNetCode a = zoneNetCode b \<and> zoneNetCode a > 0)
     \<or> zonePriority a \<noteq> zonePriority b
     \<or> zoneIsKeepout a \<noteq> zoneIsKeepout b"

fun orderedPairs :: "'a list \<Rightarrow> ('a \<times> 'a) list" where
  \<comment> \<open>Every pair of an element and a later element, in the order of the two loops.\<close>
  "orderedPairs [] = []"
| "orderedPairs (x # xs) = map (Pair x) xs @ orderedPairs xs"

definition segmentObservations :: "ZONE_ENV \<Rightarrow> int \<Rightarrow> SHAPE_POLY_SET \<Rightarrow> SHAPE_POLY_SET \<Rightarrow> (wxPoint \<times> int) list" where
  \<comment> \<open>The separations the two loops over the segments observe below the clearance, each
      with its witness point, in the order of the loops.\<close>
  "segmentObservations E clearance refPoly testPoly =
     filter (\<lambda>obs. snd obs < clearance)
       (concat (map (\<lambda>refSegment.
                       map (\<lambda>testSegment.
                              (snd (GetClearanceBetweenSegments E testSegment refSegment clearance),
                               fst (GetClearanceBetweenSegments E testSegment refSegment clearance)))
                         (polySegments testPoly))
                  (polySegments refPoly)))"

definition recordConflict :: "(wxPoint \<times> int) list \<Rightarrow> wxPoint \<times> int \<Rightarrow> (wxPoint \<times> int) list" where
  \<comment> \<open>An observation enters the map of conflict points.\<close>
  "recordConflict m obs = conflictPoints_update (fst obs) (snd obs) m"

definition separationsAt :: "(wxPoint \<times> int) list \<Rightarrow> wxPoint \<Rightarrow> int set" where
  \<comment> \<open>The separations observed at a point.\<close>
  "separationsAt obs pt = {d. (pt, d) \<in> set obs}"

subsection \<open>Footprints against the netlist: \<^verbatim>\<open>DRC::TestFootprints\<close>\<close>

record MODULE =
  modRef :: item_ref
  modReference :: string

record COMPONENT =
  compReference :: string
  compValue :: string

text \<open>
  The lookups by reference of the board and of the netlist are in other translation units:
  \<open>FindModuleByReference\<close> takes the footprints of the board, \<open>GetComponentByReference\<close> the
  components of the netlist; \<open>None\<close> is the null pointer.
\<close>

record FP_ENV =
  FindModuleByReference :: "MODULE list \<Rightarrow> string \<Rightarrow> MODULE option"
  GetComponentByReference :: "COMPONENT list \<Rightarrow> string \<Rightarrow> COMPONENT option"

definition toLower :: "char \<Rightarrow> char" where
  "toLower c = (if CHR ''A'' \<le> c \<and> c \<le> CHR ''Z'' then char_of (of_char c + (32::nat)) else c)"

definition refKey :: "MODULE \<Rightarrow> string" where
  \<comment> \<open>The reference of a footprint with its letters in lower case: what
      \<^verbatim>\<open>wxString::CmpNoCase\<close> compares.\<close>
  "refKey m = map toLower (modReference m)"

definition comp_mod :: "MODULE \<Rightarrow> MODULE \<Rightarrow> bool" where
  \<comment> \<open>\<^verbatim>\<open>x->GetReference().CmpNoCase( y->GetReference() ) < 0\<close>\<close>
  "comp_mod x y \<longleftrightarrow> refKey x < refKey y"

fun mods_insert :: "MODULE \<Rightarrow> MODULE list \<Rightarrow> MODULE list \<times> MODULE \<times> bool" where
  \<comment> \<open>\<^verbatim>\<open>std::set::insert\<close> on the set ordered by \<open>comp_mod\<close> (the lambda \<^verbatim>\<open>comp\<close> of the source), the set being the list of its
      elements in order: the new set, the element the returned iterator points to, and
      whether the insertion took place.\<close>
  "mods_insert m [] = ([m], m, True)"
| "mods_insert m (x # xs) =
     (if comp_mod m x then (m # x # xs, m, True)
      else if comp_mod x m then (case mods_insert m xs of (xs', e, b) \<Rightarrow> (x # xs', e, b))
      else (x # xs, x, False))"

fun duplicateLoop :: "MODULE list \<Rightarrow> MODULE list \<times> DRC_ITEM list \<Rightarrow> MODULE list \<times> DRC_ITEM list" where
  "duplicateLoop [] st = st"
| "duplicateLoop (m # rest) st =
     (case mods_insert m (fst st) of
        (mods, first, second) \<Rightarrow>
          duplicateLoop rest
            (mods,
             if \<not> second
             then snd st @ [SetItems2 (modRef m) (modRef first) (new_DRC_ITEM DRCE_DUPLICATE_FOOTPRINT)]
             else snd st))"

definition missingItem :: "COMPONENT \<Rightarrow> DRC_ITEM" where
  "missingItem component =
     SetErrorMessage (Printf ''Missing footprint %s (%s)''
         [ArgText (compReference component), ArgText (compValue component)])
       (new_DRC_ITEM DRCE_MISSING_FOOTPRINT)"

definition extraItem :: "MODULE \<Rightarrow> DRC_ITEM" where
  "extraItem m = SetItems1 (modRef m) (new_DRC_ITEM DRCE_EXTRA_FOOTPRINT)"

definition TestFootprints :: "FP_ENV \<Rightarrow> BOARD_DESIGN_SETTINGS \<Rightarrow> COMPONENT list \<Rightarrow> MODULE list \<Rightarrow> DRC_ITEM list
    \<Rightarrow> DRC_ITEM list" where
  \<comment> \<open>The arguments are the design settings and the footprints of \<^verbatim>\<open>aPCB\<close>, the components
      of \<^verbatim>\<open>aNetlist\<close> and \<^verbatim>\<open>aDRCList\<close>; the result is \<^verbatim>\<open>aDRCList\<close> on return.\<close>
  "TestFootprints E g aNetlist modules aDRCList =
    (let st = ([], aDRCList);
         st = (if \<not> Ignore g DRCE_DUPLICATE_FOOTPRINT then duplicateLoop modules st else st);
         mods = fst st;
         l = snd st;
         l = (if \<not> Ignore g DRCE_MISSING_FOOTPRINT
              then l @ map missingItem
                     (filter (\<lambda>component. FindModuleByReference E modules (compReference component) = None)
                        aNetlist)
              else l);
         l = (if \<not> Ignore g DRCE_EXTRA_FOOTPRINT
              then l @ map extraItem
                     (filter (\<lambda>m. GetComponentByReference E aNetlist (modReference m) = None) mods)
              else l)
     in l)"

definition firstWithKey :: "MODULE list \<Rightarrow> string \<Rightarrow> MODULE option" where
  \<comment> \<open>The first footprint of a list whose reference, letters in lower case, is the given
      one.\<close>
  "firstWithKey ms k = find (\<lambda>x. refKey x = k) ms"

abbreviation sortedByKey :: "MODULE list \<Rightarrow> bool" where
  "sortedByKey mods \<equiv> sorted_wrt (\<lambda>a b. refKey a < refKey b) mods"

definition duplicateItem :: "MODULE \<Rightarrow> MODULE \<Rightarrow> DRC_ITEM" where
  "duplicateItem m first = SetItems2 (modRef m) (modRef first) (new_DRC_ITEM DRCE_DUPLICATE_FOOTPRINT)"

fun duplicateItems :: "MODULE list \<Rightarrow> MODULE list \<Rightarrow> DRC_ITEM list" where
  \<comment> \<open>The duplicates as the specification words them: every footprint of the second list
      whose reference, case ignored, is that of an earlier footprint (of the first list, or
      of the second list before it) is flagged against the first such footprint.\<close>
  "duplicateItems pre [] = []"
| "duplicateItems pre (m # ms) =
     (case firstWithKey pre (refKey m) of Some first \<Rightarrow> [duplicateItem m first] | None \<Rightarrow> [])
     @ duplicateItems (pre @ [m]) ms"

definition extraItemsFor :: "MODULE \<Rightarrow> DRC_ITEM list \<Rightarrow> DRC_ITEM list" where
  \<comment> \<open>The items \<^verbatim>\<open>DRCE_EXTRA_FOOTPRINT\<close> of a list that refer to a footprint.\<close>
  "extraItemsFor m l =
     filter (\<lambda>i. errorCode i = DRCE_EXTRA_FOOTPRINT \<and> mainItem i = Some (modRef m)) l"

subsection \<open>The location of a marker on a track: \<^verbatim>\<open>DRC::getLocation\<close>\<close>










definition fitsInt :: "int \<Rightarrow> bool" where
  \<comment> \<open>The values of a 32-bit \<^verbatim>\<open>int\<close>, the type of the coordinates of \<^verbatim>\<open>wxPoint\<close>.\<close>
  "fitsInt v \<longleftrightarrow> - (2 ^ 31) \<le> v \<and> v < 2 ^ 31"

definition inRange :: "wxPoint \<Rightarrow> bool" where
  \<comment> \<open>Both coordinates are less than \<open>2 ^ 30\<close> in absolute value: the sum of two such
      coordinates is less than \<open>2 ^ 31\<close> in absolute value and fits a 32-bit \<^verbatim>\<open>int\<close>, so
      \<^verbatim>\<open>pt1 + pt2\<close> does not overflow and \<open>midPoint\<close>, which adds unbounded integers, is
      what the source computes.\<close>
  "inRange p \<longleftrightarrow> \<bar>fst p\<bar> < 2 ^ 30 \<and> \<bar>snd p\<bar> < 2 ^ 30"







subsection \<open>The run: \<^verbatim>\<open>DRC::RunTests\<close>\<close>

text \<open>
  The state of the checker: the markers of the board (\<^verbatim>\<open>addMarkerToPcb\<close> commits them to
  \<^verbatim>\<open>m_pcb\<close>), the two lists and the two flags the checker owns, and its options. \<open>callLog\<close>
  is not in the source: it records the name of every checker \<^verbatim>\<open>RunTests\<close> calls, in order.
\<close>

record DRC =
  boardMarkers :: "MARKER_PCB list"
  m_unconnected :: "DRC_ITEM list"
  m_footprints :: "DRC_ITEM list"
  m_drcRun :: bool
  m_footprintsTested :: bool
  m_doPad2PadTest :: bool
  m_doUnconnectedTest :: bool
  m_doZonesTest :: bool
  m_doKeepoutTest :: bool
  m_refillZones :: bool
  m_reportAllTrackErrors :: bool
  m_testFootprints :: bool
  callLog :: "string list"

record BOARD =
  GetDesignSettings :: BOARD_DESIGN_SETTINGS
  sortedPadList :: "D_PAD list"
  areas :: "ZONE_CONTAINER list"
  Modules :: "MODULE list"

text \<open>
  The collaborators of a run. The checkers whose geometry is in other translation units
  (or is not needed here) are given by the list of markers they hand to
  \<^verbatim>\<open>addMarkerToPcb\<close>; \<open>testTracks\<close> takes the two options it reads, \<^verbatim>\<open>m_doZonesTest\<close> and
  \<^verbatim>\<open>m_reportAllTrackErrors\<close>. \<open>GetUnconnectedEdges\<close> is the list of edges of the connectivity
  collaborator after it has been rebuilt, each edge as the parents of its two nodes;
  \<open>FetchNetlistFromSchematic\<close> is the netlist fetched from the schematic; \<open>IsSingle\<close> is
  \<^verbatim>\<open>Kiface().IsSingle()\<close>.
\<close>

record RUN_ENV =
  padEnv :: PAD_ENV
  zoneEnv :: ZONE_ENV
  fpEnv :: FP_ENV
  GetPadCount :: "int \<Rightarrow> int"
  GetUnconnectedEdges :: "(item_ref \<times> item_ref) list"
  FetchNetlistFromSchematic :: "COMPONENT list"
  IsSingle :: bool
  testOutline :: "MARKER_PCB list"
  testDrilledHoles :: "MARKER_PCB list"
  testTracks :: "bool \<Rightarrow> bool \<Rightarrow> MARKER_PCB list"
  testKeepoutAreas :: "MARKER_PCB list"
  testCopperTextAndGraphics :: "MARKER_PCB list"
  doCourtyardsDrc :: "MARKER_PCB list"
  testDisabledLayers :: "MARKER_PCB list"
  testTextVars :: "MARKER_PCB list"

definition called :: "string \<Rightarrow> BOARD_DESIGN_SETTINGS \<Rightarrow> MARKER_PCB list \<Rightarrow> DRC \<Rightarrow> DRC" where
  \<comment> \<open>A call of a checker: its name goes to the log, its markers to \<^verbatim>\<open>addMarkerToPcb\<close>.\<close>
  "called name g ms st =
     st\<lparr>boardMarkers := addMarkersToPcb g ms (boardMarkers st), callLog := callLog st @ [name]\<rparr>"

definition calledIf :: "bool \<Rightarrow> string \<Rightarrow> BOARD_DESIGN_SETTINGS \<Rightarrow> MARKER_PCB list \<Rightarrow> DRC \<Rightarrow> DRC" where
  \<comment> \<open>A call of a checker under a condition.\<close>
  "calledIf c name g ms st = (if c then called name g ms st else st)"

definition logged :: "string \<Rightarrow> DRC \<Rightarrow> DRC" where
  \<comment> \<open>A call that writes none of the fields of the state.\<close>
  "logged name st = st\<lparr>callLog := callLog st @ [name]\<rparr>"

definition emptyNetMarkers :: "RUN_ENV \<Rightarrow> BOARD \<Rightarrow> MARKER_PCB list" where
  \<comment> \<open>The first loop of \<^verbatim>\<open>testZones\<close>: copper zones whose net code is negative, or positive
      with no pad in the net.\<close>
  "emptyNetMarkers E b =
     (if \<not> Ignore (GetDesignSettings b) DRCE_ZONE_HAS_EMPTY_NET
      then map (\<lambda>zone. new_MARKER_PCB (SetItems1 (zoneRef zone) (new_DRC_ITEM DRCE_ZONE_HAS_EMPTY_NET))
                  (zonePosition zone))
             (filter (\<lambda>zone. IsOnCopperLayer (zoneEnv E) zone
                        \<and> (let netcode = zoneNetCode zone;
                                pads_in_net = (if netcode > 0 then GetPadCount E netcode else 1)
                            in netcode < 0 \<or> pads_in_net = 0))
                (areas b))
      else [])"

definition testZones :: "RUN_ENV \<Rightarrow> BOARD \<Rightarrow> MARKER_PCB list" where
  "testZones E b = emptyNetMarkers E b @ TestZoneToZoneOutlines (zoneEnv E) (areas b)"

definition testUnconnected :: "RUN_ENV \<Rightarrow> DRC \<Rightarrow> DRC" where
  \<comment> \<open>The list is cleared, then rebuilt from the edges.\<close>
  "testUnconnected E st =
     logged ''testUnconnected''
       (st\<lparr>m_unconnected :=
             [] @ map (\<lambda>edge. SetItems2 (fst edge) (snd edge) (new_DRC_ITEM DRCE_UNCONNECTED_ITEMS))
                    (GetUnconnectedEdges E)\<rparr>)"

definition clearFootprints :: "DRC \<Rightarrow> DRC" where
  \<comment> \<open>\<^verbatim>\<open>m_footprints.clear(); m_footprintsTested = false;\<close>\<close>
  "clearFootprints st = st\<lparr>m_footprints := [], m_footprintsTested := False\<rparr>"

definition runTestFootprints :: "RUN_ENV \<Rightarrow> BOARD \<Rightarrow> DRC \<Rightarrow> DRC" where
  \<comment> \<open>\<^verbatim>\<open>TestFootprints( netlist, m_pcb, ..., m_footprints ); m_footprintsTested = true;\<close>\<close>
  "runTestFootprints E b st =
     logged ''TestFootprints''
       (st\<lparr>m_footprints :=
             TestFootprints (fpEnv E) (GetDesignSettings b) (FetchNetlistFromSchematic E) (Modules b)
               (m_footprints st),
           m_footprintsTested := True\<rparr>)"

definition RunTests_geometry :: "RUN_ENV \<Rightarrow> BOARD \<Rightarrow> DRC \<Rightarrow> DRC" where
  \<comment> \<open>\<^verbatim>\<open>RunTests\<close> after the test of the net classes.\<close>
  "RunTests_geometry E b st =
    (let g = GetDesignSettings b;
         st = calledIf (m_doPad2PadTest st) ''testPad2Pad'' g
                (testPad2Pad (padEnv E) (sortedPadList b)) st;
         st = called ''testDrilledHoles'' g (testDrilledHoles E) st;
         st = (if m_refillZones st then logged ''FillAllZones'' st else logged ''CheckAllZones'' st);
         st = called ''testTracks'' g (testTracks E (m_doZonesTest st) (m_reportAllTrackErrors st)) st;
         st = called ''testZones'' g (testZones E b) st;
         st = (if m_doUnconnectedTest st \<and> \<not> Ignore g DRCE_UNCONNECTED_ITEMS
               then testUnconnected E st else st);
         st = calledIf (m_doKeepoutTest st) ''testKeepoutAreas'' g (testKeepoutAreas E) st;
         st = called ''testCopperTextAndGraphics'' g (testCopperTextAndGraphics E) st;
         st = calledIf (\<not> Ignore g DRCE_OVERLAPPING_FOOTPRINTS \<or> \<not> Ignore g DRCE_MISSING_COURTYARD
                  \<or> \<not> Ignore g DRCE_MALFORMED_COURTYARD \<or> \<not> Ignore g DRCE_PTH_IN_COURTYARD
                  \<or> \<not> Ignore g DRCE_NPTH_IN_COURTYARD)
                ''doCourtyardsDrc'' g (doCourtyardsDrc E) st;
         st = clearFootprints st;
         st = (if m_testFootprints st \<and> \<not> IsSingle E then runTestFootprints E b st else st);
         st = calledIf (\<not> Ignore g DRCE_DISABLED_LAYER_ITEM) ''testDisabledLayers'' g
                (testDisabledLayers E) st;
         st = calledIf (\<not> Ignore g DRCE_UNRESOLVED_VARIABLE) ''testTextVars'' g (testTextVars E) st
     in st\<lparr>m_drcRun := True\<rparr>)"

definition RunTests :: "RUN_ENV \<Rightarrow> BOARD \<Rightarrow> DRC \<Rightarrow> DRC" where
  \<comment> \<open>The texts appended to \<^verbatim>\<open>aMessages\<close>, the reload of the rule file and the update of the
      dialog are left out: they write none of the fields of the state.\<close>
  "RunTests E b st =
    (let g = GetDesignSettings b;
         st = called ''testOutline'' g (testOutline E) st;
         nc = testNetClasses g;
         st = called ''testNetClasses'' g (snd nc) st
     in if \<not> fst nc then st else RunTests_geometry E b st)"

definition geometryCheckers :: "string list" where
  \<comment> \<open>The names of the checkers \<^verbatim>\<open>RunTests\<close> calls after the net classes.\<close>
  "geometryCheckers =
     [''testPad2Pad'', ''testDrilledHoles'', ''FillAllZones'', ''CheckAllZones'', ''testTracks'',
      ''testZones'', ''testUnconnected'', ''testKeepoutAreas'', ''testCopperTextAndGraphics'',
      ''doCourtyardsDrc'', ''TestFootprints'', ''testDisabledLayers'', ''testTextVars'']"

subsection \<open>The annulus as the specification words it, and sample inputs\<close>

definition specViaAnnulus :: "NETCLASS \<Rightarrow> int" where
  \<comment> \<open>\<open>(viaSize - viaDrill) / 2\<close> rounded down: the floor of the exact quotient.\<close>
  "specViaAnnulus nc = \<lfloor>real_of_int (ncViaDiameter nc - ncViaDrill nc) / 2\<rfloor>"

definition exNetclass :: "string \<Rightarrow> int \<Rightarrow> int \<Rightarrow> int \<Rightarrow> NETCLASS" where
  \<comment> \<open>A net class with the given name, clearance, via diameter and via drill (in
      nanometres).\<close>
  "exNetclass name clearance viaDiameter viaDrill =
     \<lparr>ncName = name, ncClearance = clearance, ncTrackWidth = 250000,
      ncViaDiameter = viaDiameter, ncViaDrill = viaDrill, ncuViaDiameter = 300000,
      ncuViaDrill = 100000\<rparr>"

definition exSettings :: "NETCLASS \<Rightarrow> (string \<times> NETCLASS) list \<Rightarrow> BOARD_DESIGN_SETTINGS" where
  \<comment> \<open>Design settings with a minimum clearance of 0.2 mm, no error code ignored, and the
      given net classes.\<close>
  "exSettings d ncs =
     \<lparr>m_MinClearance = 200000, m_TrackMinWidth = 200000, m_ViasMinSize = 400000,
      m_MinThroughDrill = 300000, m_ViasMinAnnulus = 50000, m_MicroViasMinSize = 200000,
      m_MicroViasMinDrill = 100000, Ignore = (\<lambda>c. False),
      m_NetClassesOf = \<lparr>m_Default = d, m_NetClasses = ncs\<rparr>\<rparr>"

subsection \<open>The clearance test between two pads\<close>

definition centresFartherThan :: "wxPoint \<Rightarrow> wxPoint \<Rightarrow> int \<Rightarrow> bool" where
  \<comment> \<open>The Euclidean distance between two points is greater than \<open>d\<close>, decided on the
      squares.\<close>
  "centresFartherThan p q d \<longleftrightarrow>
     d < 0 \<or> d * d < (fst p - fst q) * (fst p - fst q) + (snd p - snd q) * (snd p - snd q)"

definition boundingCircleTest :: "PAD_ENV \<Rightarrow> bool" where
  \<comment> \<open>Modelled from the spec: \<^verbatim>\<open>checkClearancePadToPad\<close> is not in the sources. What the
      specification says of it: two pads whose centres are farther apart than the
      clearance plus their two bounding radii are not in violation.\<close>
  "boundingCircleTest E \<longleftrightarrow>
     (\<forall>a b minClearance.
        centresFartherThan (padPosition a) (padPosition b)
          (minClearance + GetBoundingRadius E a + GetBoundingRadius E b)
        \<longrightarrow> fst (checkClearancePadToPad E a b minClearance))"

fun floor_sqrt :: "nat \<Rightarrow> nat" where
  \<comment> \<open>The integer square root, two bits of the argument at a time.\<close>
  "floor_sqrt n =
     (if n = 0 then 0
      else (let r = 2 * floor_sqrt (n div 4)
            in if (r + 1) * (r + 1) \<le> n then r + 1 else r))"

declare floor_sqrt.simps [simp del]

definition circleClearance :: "(D_PAD \<Rightarrow> int) \<Rightarrow> D_PAD \<Rightarrow> D_PAD \<Rightarrow> int \<Rightarrow> bool \<times> int" where
  \<comment> \<open>Modelled from the spec: \<^verbatim>\<open>checkClearancePadToPad\<close> for round pads. The clearance is the
      separation between two features; for two discs it is the distance between the
      centres less the two radii. The test passes when the separation is at least
      \<open>minClearance\<close>; the second component is the separation (rounded down).\<close>
  "circleClearance radius a b minClearance =
     (let dx = fst (padPosition a) - fst (padPosition b);
          dy = snd (padPosition a) - snd (padPosition b);
          need = minClearance + radius a + radius b
      in (need \<le> 0 \<or> need * need \<le> dx * dx + dy * dy,
          int (floor_sqrt (nat (dx * dx + dy * dy))) - radius a - radius b))"

subsection \<open>Sample boards\<close>

definition exPadEnv :: PAD_ENV where
  \<comment> \<open>Round pads on a board with two copper layers (0 and 31): the bounding radius is half
      the size, the pads of net 2 have a clearance of 100, the others a clearance of 1.\<close>
  "exPadEnv =
     \<lparr>GetClearance = (\<lambda>p. (if padNetCode p = 2 then 100 else 1, ''netclass'')),
      GetBoundingRadius = (\<lambda>p. c_div (fst (padSize p)) 2),
      checkClearancePadToPad = circleClearance (\<lambda>p. c_div (fst (padSize p)) 2),
      AllCuMask = {0, 31},
      dummypad = \<lparr>padRef = 0, padParent = 0, padName = [], padPosition = (0, 0), padSize = (0, 0),
                  padShape = PAD_SHAPE_CIRCLE, padOrientation = 0, padDrillSize = (0, 0),
                  padDrillShape = PAD_DRILL_SHAPE_CIRCLE, padLayerSet = {}, padNetCode = 0\<rparr>\<rparr>"

definition exPad :: "item_ref \<Rightarrow> int \<Rightarrow> int \<Rightarrow> int \<Rightarrow> nat \<Rightarrow> int \<Rightarrow> D_PAD" where
  \<comment> \<open>The round pad with the given address, abscissa (the ordinate is 0), diameter, drill
      diameter, copper layer and net; each pad is the pad 1 of a footprint of its own.\<close>
  "exPad r x diameter drill layer net =
     \<lparr>padRef = r, padParent = 100 + r, padName = ''1'', padPosition = (x, 0),
      padSize = (diameter, diameter), padShape = PAD_SHAPE_CIRCLE, padOrientation = 0,
      padDrillSize = (drill, drill), padDrillShape = PAD_DRILL_SHAPE_CIRCLE,
      padLayerSet = {layer}, padNetCode = net\<rparr>"

definition exZoneEnv :: ZONE_ENV where
  \<comment> \<open>A toy geometry: every zone is on copper; the outline of a zone is two segments of
      length 10 to the right, one from its position and one from the point above it; no
      outline contains a point; the clearance between zones is 5; the separation of two
      segments is the distance between their first points along x and y, never more than
      the maximum asked for; the point reported is the first point of the second segment.\<close>
  "exZoneEnv =
     \<lparr>IsOnCopperLayer = (\<lambda>z. True),
      BuildSmoothedPoly =
        (\<lambda>z. \<lparr>polyVertices = [zonePosition z],
               polySegments =
                 [(zonePosition z, (fst (zonePosition z) + 10, snd (zonePosition z))),
                  ((fst (zonePosition z), snd (zonePosition z) + 1),
                   (fst (zonePosition z) + 10, snd (zonePosition z) + 1))]\<rparr>),
      Contains = (\<lambda>poly pt. False),
      zoneGetClearance = (\<lambda>a b. (5, ''board'')),
      GetClearanceBetweenSegments =
        (\<lambda>b a max_cl. (min max_cl (\<bar>fst (fst a) - fst (fst b)\<bar> + \<bar>snd (fst a) - snd (fst b)\<bar>),
                        fst a))\<rparr>"

definition exZone :: "item_ref \<Rightarrow> int \<Rightarrow> int \<Rightarrow> bool \<Rightarrow> ZONE_CONTAINER" where
  \<comment> \<open>The zone with the given address, net, ordinate (the abscissa is 0) and keepout flag,
      on layer 0 with priority 0.\<close>
  "exZone r net y keepout =
     \<lparr>zoneRef = r, zoneLayer = 0, zoneNetCode = net, zonePriority = 0, zoneIsKeepout = keepout,
      zonePosition = (0, y)\<rparr>"

definition exArea :: "item_ref \<Rightarrow> int \<Rightarrow> int \<Rightarrow> bool \<Rightarrow> ZONE_CONTAINER \<times> SHAPE_POLY_SET" where
  \<comment> \<open>A sample zone with its smoothed outline.\<close>
  "exArea r net y keepout = (exZone r net y keepout, BuildSmoothedPoly exZoneEnv (exZone r net y keepout))"

definition exFpEnv :: FP_ENV where
  \<comment> \<open>The two lookups find the first entry whose reference is the given one.\<close>
  "exFpEnv =
     \<lparr>FindModuleByReference = (\<lambda>ms r. find (\<lambda>m. modReference m = r) ms),
      GetComponentByReference = (\<lambda>cs r. find (\<lambda>c. compReference c = r) cs)\<rparr>"

definition exModule :: "item_ref \<Rightarrow> string \<Rightarrow> MODULE" where
  "exModule r reference = \<lparr>modRef = r, modReference = reference\<rparr>"

definition exModules :: "MODULE list" where
  \<comment> \<open>Four footprints; the third has the reference of the first in lower case.\<close>
  "exModules = [exModule 1 ''R1'', exModule 3 ''R2'', exModule 2 ''r1'', exModule 4 ''D1'']"

definition exNetlist :: "COMPONENT list" where
  "exNetlist = [\<lparr>compReference = ''C1'', compValue = ''10n''\<rparr>,
                \<lparr>compReference = ''R2'', compValue = ''10k''\<rparr>]"

definition exIgnore :: "DRC_CODE list \<Rightarrow> BOARD_DESIGN_SETTINGS" where
  \<comment> \<open>The sample design settings with the given error codes ignored.\<close>
  "exIgnore cs = (exSettings (exNetclass ''Default'' 200000 800000 400000) [])\<lparr>Ignore := (\<lambda>c. c \<in> set cs)\<rparr>"

definition exRunEnv :: RUN_ENV where
  \<comment> \<open>A run on which the checkers that are parameters find nothing, and the connectivity
      has no unconnected edge.\<close>
  "exRunEnv =
     \<lparr>padEnv = exPadEnv, zoneEnv = exZoneEnv, fpEnv = exFpEnv, GetPadCount = (\<lambda>n. 1),
      GetUnconnectedEdges = [], FetchNetlistFromSchematic = [], IsSingle = False,
      testOutline = [], testDrilledHoles = [], testTracks = (\<lambda>zones allErrors. []),
      testKeepoutAreas = [], testCopperTextAndGraphics = [], doCourtyardsDrc = [],
      testDisabledLayers = [], testTextVars = []\<rparr>"

definition exBoard :: "int \<Rightarrow> BOARD" where
  \<comment> \<open>An empty board whose Default net class has the given clearance; the board minimum is
      200000 (0.2 mm).\<close>
  "exBoard clearance =
     \<lparr>GetDesignSettings = exSettings (exNetclass ''Default'' clearance 800000 400000) [],
      sortedPadList = [], areas = [], Modules = []\<rparr>"

definition staleItem :: DRC_ITEM where
  \<comment> \<open>An item left by an earlier run.\<close>
  "staleItem = SetItems2 7 8 (new_DRC_ITEM DRCE_UNCONNECTED_ITEMS)"

definition exDRC :: "bool \<Rightarrow> DRC" where
  \<comment> \<open>The state after an earlier run that left a marker, an unconnected item and a
      footprint item; the argument is the option \<^verbatim>\<open>m_doUnconnectedTest\<close>.\<close>
  "exDRC doUnconnected =
     \<lparr>boardMarkers = [new_MARKER_PCB staleItem (1, 1)], m_unconnected = [staleItem],
      m_footprints = [extraItem \<lparr>modRef = 9, modReference = ''R9''\<rparr>], m_drcRun = False,
      m_footprintsTested = True, m_doPad2PadTest = True, m_doUnconnectedTest = doUnconnected,
      m_doZonesTest = False, m_doKeepoutTest = True, m_refillZones = False,
      m_reportAllTrackErrors = False, m_testFootprints = False, callLog = []\<rparr>"

section \<open>Theorems\<close>

lemma c_div_2: "c_div a 2 = (if a < 0 then - ((- a) div 2) else a div 2)"
  by (simp add: c_div_def sgn_if)

lemma doNetClass_codes: "map markerCode (snd (doNetClass g nc)) = belowFloor g nc"
  by (simp add: doNetClass_def belowFloor_def netclassFields_def report_def netclassMarker_def
      markerCode_def new_MARKER_PCB_def SetErrorMessage_def new_DRC_ITEM_def Let_def)

lemma doNetClass_ret: "fst (doNetClass g nc) \<longleftrightarrow> snd (doNetClass g nc) = []"
  by (simp add: doNetClass_def report_def Let_def)


subsection \<open>Net classes\<close>

lemma specViaAnnulus_div: "specViaAnnulus nc = (ncViaDiameter nc - ncViaDrill nc) div 2"
  unfolding specViaAnnulus_def
  using floor_divide_of_int_eq[of "ncViaDiameter nc - ncViaDrill nc" 2, where ?'a = real] by simp

lemma annulus_in_codes:
  "DRCE_NETCLASS_VIAANNULUS \<in> set (belowFloor g nc) \<longleftrightarrow> ncViaAnnulus nc < m_ViasMinAnnulus g"
  by (simp add: belowFloor_def netclassFields_def)

lemma testNetClasses_loop_eq:
  "testNetClasses_loop g ncs st =
     (fst st \<and> concat (map (\<lambda>i. belowFloor g (snd i)) ncs) = [],
      snd st @ concat (map (\<lambda>i. snd (doNetClass g (snd i))) ncs))"
proof (induction ncs arbitrary: st)
  case Nil
  then show ?case by simp
next
  case (Cons i ncs)
  have "fst (doNetClass g (snd i)) \<longleftrightarrow> belowFloor g (snd i) = []"
    using doNetClass_ret[of g "snd i"] doNetClass_codes[of g "snd i"] by auto
  then show ?case by (simp add: Cons.IH Let_def)
qed

lemma testNetClasses_eq:
  "testNetClasses g =
     (concat (map (belowFloor g) (allClasses g)) = [],
      concat (map (\<lambda>nc. snd (doNetClass g nc)) (allClasses g)))"
proof -
  have "fst (doNetClass g nc) \<longleftrightarrow> belowFloor g nc = []" for nc
    using doNetClass_ret[of g nc] doNetClass_codes[of g nc] by auto
  then show ?thesis
    by (simp add: testNetClasses_def testNetClasses_loop_eq allClasses_def Let_def comp_def)
qed

lemma testNetClasses_codes:
  "map markerCode (snd (testNetClasses g)) = concat (map (belowFloor g) (allClasses g))"
  by (simp add: testNetClasses_eq map_concat comp_def doNetClass_codes)

lemma testNetClasses_ret:
  "fst (testNetClasses g) \<longleftrightarrow> concat (map (belowFloor g) (allClasses g)) = []"
  by (simp add: testNetClasses_eq)

lemma addMarkersToPcb_append:
  "addMarkersToPcb g ms bm = bm @ filter (\<lambda>m. \<not> Ignore g (markerCode m)) ms"
  by (induction ms arbitrary: bm) (simp_all add: addMarkerToPcb_def)

lemma called_simps:
  "boardMarkers (called n g ms st) = boardMarkers st @ filter (\<lambda>m. \<not> Ignore g (markerCode m)) ms"
  "callLog (called n g ms st) = callLog st @ [n]"
  "m_unconnected (called n g ms st) = m_unconnected st"
  "m_footprints (called n g ms st) = m_footprints st"
  "m_drcRun (called n g ms st) = m_drcRun st"
  "m_footprintsTested (called n g ms st) = m_footprintsTested st"
  "m_doPad2PadTest (called n g ms st) = m_doPad2PadTest st"
  "m_doUnconnectedTest (called n g ms st) = m_doUnconnectedTest st"
  "m_doZonesTest (called n g ms st) = m_doZonesTest st"
  "m_doKeepoutTest (called n g ms st) = m_doKeepoutTest st"
  "m_refillZones (called n g ms st) = m_refillZones st"
  "m_reportAllTrackErrors (called n g ms st) = m_reportAllTrackErrors st"
  "m_testFootprints (called n g ms st) = m_testFootprints st"
  by (simp_all add: called_def addMarkersToPcb_append)










lemma RunTests_abort:
  "\<not> fst (testNetClasses (GetDesignSettings b)) \<Longrightarrow>
   RunTests E b st =
     called ''testNetClasses'' (GetDesignSettings b) (snd (testNetClasses (GetDesignSettings b)))
       (called ''testOutline'' (GetDesignSettings b) (testOutline E) st)"
  by (simp add: RunTests_def Let_def)



subsection \<open>Claim C1: the net-class check reports everything, then aborts the run\<close>

text \<open>
  Claim C1. \<^verbatim>\<open>testNetClasses\<close> examines the Default class and every user class, and in each
  class every one of the seven fields: the codes of the markers it hands to
  \<^verbatim>\<open>addMarkerToPcb\<close> are, class after class, the fields of the class that are below the
  board-wide floor, one marker per field. It returns true exactly when no field of any class
  is below its floor. When it returns false, \<^verbatim>\<open>RunTests\<close> returns the state it has after
  the test of the net classes: the log of the run holds \<^verbatim>\<open>testOutline\<close> and
  \<^verbatim>\<open>testNetClasses\<close> and none of the later checkers.
\<close>

theorem netclass_check_reports_all_then_aborts:
  "map markerCode (snd (testNetClasses (GetDesignSettings b)))
     = concat (map (belowFloor (GetDesignSettings b)) (allClasses (GetDesignSettings b)))
   \<and> (fst (testNetClasses (GetDesignSettings b))
        \<longleftrightarrow> concat (map (belowFloor (GetDesignSettings b)) (allClasses (GetDesignSettings b))) = [])
   \<and> (\<not> fst (testNetClasses (GetDesignSettings b)) \<longrightarrow>
        RunTests E b st =
          called ''testNetClasses'' (GetDesignSettings b) (snd (testNetClasses (GetDesignSettings b)))
            (called ''testOutline'' (GetDesignSettings b) (testOutline E) st)
        \<and> callLog (RunTests E b st) = callLog st @ [''testOutline'', ''testNetClasses'']
        \<and> set (drop (length (callLog st)) (callLog (RunTests E b st))) \<inter> set geometryCheckers = {})"
proof -
  have "set [''testOutline'', ''testNetClasses''] \<inter> set geometryCheckers = {}"
    by (simp add: geometryCheckers_def)
  then show ?thesis
    by (simp add: testNetClasses_codes RunTests_abort called_simps testNetClasses_ret)
qed

theorem netclass_check_reports_all_then_aborts_witness:
  "map markerCode (snd (testNetClasses (GetDesignSettings (exBoard 150000)))) = [DRCE_NETCLASS_CLEARANCE]
   \<and> \<not> fst (testNetClasses (GetDesignSettings (exBoard 150000)))
   \<and> callLog (RunTests exRunEnv (exBoard 150000) (exDRC True)) = [''testOutline'', ''testNetClasses'']"
proof -
  have codes: "concat (map (belowFloor (GetDesignSettings (exBoard 150000)))
      (allClasses (GetDesignSettings (exBoard 150000)))) = [DRCE_NETCLASS_CLEARANCE]"
    by (simp add: exBoard_def exSettings_def exNetclass_def allClasses_def belowFloor_def
        netclassFields_def ncViaAnnulus_def c_div_2)
  have log0: "callLog (exDRC True) = []"
    by (simp add: exDRC_def)
  show ?thesis
    using netclass_check_reports_all_then_aborts[of "exBoard 150000" exRunEnv "exDRC True"] codes log0
    by (simp add: called_simps)
qed

subsection \<open>Claim C9: the via annulus\<close>

text \<open>
  Claim C9, as amended. The annulus of a net class is \<open>(viaSize - viaDrill) / 2\<close> with the
  quotient of C++, which truncates towards zero: it is the floor of the exact quotient when
  the drill is not larger than the via, and the negated floor of \<open>(viaDrill - viaSize) / 2\<close>
  otherwise. A marker \<^verbatim>\<open>DRCE_NETCLASS_VIAANNULUS\<close> is handed to \<^verbatim>\<open>addMarkerToPcb\<close> exactly when
  this annulus is below the minimum annulus of the board.
\<close>

theorem via_annulus_truncates_towards_zero:
  "ncViaAnnulus nc =
     (if ncViaDrill nc \<le> ncViaDiameter nc then specViaAnnulus nc
      else - ((ncViaDrill nc - ncViaDiameter nc) div 2))
   \<and> (DRCE_NETCLASS_VIAANNULUS \<in> set (map markerCode (snd (doNetClass g nc)))
        \<longleftrightarrow> ncViaAnnulus nc < m_ViasMinAnnulus g)"
  by (simp add: doNetClass_codes annulus_in_codes specViaAnnulus_div ncViaAnnulus_def c_div_2)

theorem via_annulus_truncates_towards_zero_witness:
  "ncViaAnnulus (exNetclass ''Default'' 200000 800001 400000) = 200000
   \<and> specViaAnnulus (exNetclass ''Default'' 200000 800001 400000) = 200000
   \<and> DRCE_NETCLASS_VIAANNULUS \<notin> set (map markerCode (snd (doNetClass
         (exSettings (exNetclass ''Default'' 200000 800001 400000) [])
         (exNetclass ''Default'' 200000 800001 400000))))"
  using via_annulus_truncates_towards_zero[of "exNetclass ''Default'' 200000 800001 400000"
      "exSettings (exNetclass ''Default'' 200000 800001 400000) []"]
  by (simp add: exNetclass_def exSettings_def specViaAnnulus_div ncViaAnnulus_def c_div_2)

text \<open>
  The claim as stated (the floor of the exact quotient for every net class) fails for a
  class whose drill exceeds its via by an odd number: the source computes 0 for a via of 0
  and a drill of 1, the floor of \<open>-1/2\<close> is \<open>-1\<close>.
\<close>

theorem via_annulus_is_not_the_floor:
  "ncViaAnnulus (exNetclass ''Default'' 200000 0 1) = 0
   \<and> specViaAnnulus (exNetclass ''Default'' 200000 0 1) = - 1"
  by (simp add: specViaAnnulus_div ncViaAnnulus_def exNetclass_def c_div_2)

subsection \<open>Claim C6: the result collections across runs\<close>





subsection \<open>Pads\<close>






lemmas exPad_eval = exPadEnv_def exPad_def padStep_def holeTests_def holePad_def circleClearance_def
  PadNameEqual_def Let_def c_div_2 x_limit_of_def



lemma exPadEnv_boundingCircleTest: "boundingCircleTest exPadEnv"
  unfolding boundingCircleTest_def centresFartherThan_def exPadEnv_def circleClearance_def Let_def
  by auto

lemma max_size_loop_ge: "m \<le> max_size_loop E pads m"
proof (induction pads arbitrary: m)
  case Nil
  then show ?case by simp
next
  case (Cons a pads)
  have "(if GetBoundingRadius E a > m then GetBoundingRadius E a else m)
          \<le> max_size_loop E pads (if GetBoundingRadius E a > m then GetBoundingRadius E a else m)"
    by (rule Cons.IH)
  then show ?case by (simp add: Let_def split: if_splits)
qed

lemma max_size_loop_bounds:
  "p \<in> set pads \<Longrightarrow> GetBoundingRadius E p \<le> max_size_loop E pads m"
proof (induction pads arbitrary: m)
  case Nil
  then show ?case by simp
next
  case (Cons a pads)
  show ?case
  proof (cases "p = a")
    case True
    have "(if GetBoundingRadius E a > m then GetBoundingRadius E a else m)
          \<le> max_size_loop E pads (if GetBoundingRadius E a > m then GetBoundingRadius E a else m)"
      by (rule max_size_loop_ge)
    then show ?thesis using True by (simp add: Let_def split: if_splits)
  next
    case False
    then have "p \<in> set pads" using Cons.prems by simp
    then show ?thesis using Cons.IH by (simp add: Let_def)
  qed
qed

lemma farther_along_x:
  assumes "d < fst q - fst p"
  shows "centresFartherThan p q d"
proof (cases "d < 0")
  case True
  then show ?thesis by (simp add: centresFartherThan_def)
next
  case False
  then have d0: "0 \<le> d" by simp
  let ?dx = "fst q - fst p"
  have "d * d < ?dx * ?dx"
    using assms d0 by (intro mult_strict_mono') auto
  moreover have "(fst p - fst q) * (fst p - fst q) = ?dx * ?dx"
    by (simp add: algebra_simps)
  moreover have "0 \<le> (snd p - snd q) * (snd p - snd q)" by simp
  ultimately show ?thesis unfolding centresFartherThan_def by linarith
qed

lemma centresFartherThan_sym: "centresFartherThan p q d = centresFartherThan q p d"
proof -
  have "(fst p - fst q) * (fst p - fst q) = (fst q - fst p) * (fst q - fst p)"
    by (simp add: algebra_simps)
  moreover have "(snd p - snd q) * (snd p - snd q) = (snd q - snd p) * (snd q - snd p)"
    by (simp add: algebra_simps)
  ultimately show ?thesis by (simp add: centresFartherThan_def)
qed

lemma holePad_position [simp]: "padPosition (holePad E p) = padPosition p"
  by (simp add: holePad_def)

lemma beyond_limit_pad_test:
  assumes bc: "boundingCircleTest E"
    and far: "max_size + x_limit_of E ref < fst (padPosition p)"
    and rp: "GetBoundingRadius E p \<le> max_size"
  shows "fst (checkClearancePadToPad E ref p (fst (GetClearance E ref)))"
proof -
  have "fst (GetClearance E ref) + GetBoundingRadius E ref + GetBoundingRadius E p
          < fst (padPosition p) - fst (padPosition ref)"
    using far rp by (simp add: x_limit_of_def)
  then have "centresFartherThan (padPosition ref) (padPosition p)
      (fst (GetClearance E ref) + GetBoundingRadius E ref + GetBoundingRadius E p)"
    by (rule farther_along_x)
  then show ?thesis using bc unfolding boundingCircleTest_def by blast
qed

lemma beyond_limit_hole_test:
  assumes bc: "boundingCircleTest E"
    and far: "max_size + x_limit_of E ref < fst (padPosition p)"
    and rp: "GetBoundingRadius E (holePad E p) \<le> max_size"
  shows "fst (checkClearancePadToPad E ref (holePad E p) (fst (GetClearance E ref)))"
proof -
  have "max_size + x_limit_of E ref < fst (padPosition (holePad E p))"
    using far by simp
  then show ?thesis using beyond_limit_pad_test[OF bc _ rp] by blast
qed

lemma beyond_limit_ref_hole_test:
  assumes bc: "boundingCircleTest E"
    and far: "max_size + x_limit_of E ref < fst (padPosition p)"
    and rp: "GetBoundingRadius E p \<le> max_size"
    and rh: "GetBoundingRadius E (holePad E ref) \<le> GetBoundingRadius E ref"
    and cl: "fst (GetClearance E p) \<le> fst (GetClearance E ref)"
  shows "fst (checkClearancePadToPad E p (holePad E ref) (fst (GetClearance E p)))"
proof -
  have "fst (GetClearance E p) + GetBoundingRadius E p + GetBoundingRadius E (holePad E ref)
          < fst (padPosition p) - fst (padPosition (holePad E ref))"
    using far rp rh cl by (simp add: x_limit_of_def)
  then have "centresFartherThan (padPosition (holePad E ref)) (padPosition p)
      (fst (GetClearance E p) + GetBoundingRadius E p + GetBoundingRadius E (holePad E ref))"
    by (rule farther_along_x)
  then have "centresFartherThan (padPosition p) (padPosition (holePad E ref))
      (fst (GetClearance E p) + GetBoundingRadius E p + GetBoundingRadius E (holePad E ref))"
    by (simp add: centresFartherThan_sym)
  then show ?thesis using bc unfolding boundingCircleTest_def by blast
qed

lemma beyond_limit_Continue:
  assumes bc: "boundingCircleTest E"
    and far: "max_size + x_limit_of E ref < fst (padPosition p)"
    and rp: "GetBoundingRadius E p \<le> max_size"
    and rhp: "GetBoundingRadius E (holePad E p) \<le> max_size"
    and rh: "GetBoundingRadius E (holePad E ref) \<le> GetBoundingRadius E ref"
    and cl: "fst (GetClearance E p) \<le> fst (GetClearance E ref)"
  shows "padStep E ref p = Continue"
  using beyond_limit_pad_test[OF bc far rp] beyond_limit_hole_test[OF bc far rhp]
    beyond_limit_ref_hole_test[OF bc far rp rh cl]
  by (simp add: padStep_def holeTests_def Let_def)

lemma beyond_limit_scan:
  assumes bc: "boundingCircleTest E"
    and far: "\<forall>p \<in> set pads. max_size + x_limit_of E ref < fst (padPosition p)"
    and rp: "\<forall>p \<in> set pads. GetBoundingRadius E p \<le> max_size"
    and rhp: "\<forall>p \<in> set pads. GetBoundingRadius E (holePad E p) \<le> max_size"
    and rh: "GetBoundingRadius E (holePad E ref) \<le> GetBoundingRadius E ref"
    and cl: "\<forall>p \<in> set pads. fst (GetClearance E p) \<le> fst (GetClearance E ref)"
  shows "doPadToPadsDrc E ref pads xl = (True, [])"
  using far rp rhp cl
proof (induction pads)
  case Nil
  then show ?case by simp
next
  case (Cons a pads)
  have "padStep E ref a = Continue"
    using beyond_limit_Continue[OF bc _ _ _ rh] Cons.prems by auto
  moreover have "doPadToPadsDrc E ref pads xl = (True, [])"
    using Cons by simp
  ultimately show ?case by simp
qed

lemma early_exit_sound:
  assumes bc: "boundingCircleTest E"
    and srt: "sorted (map (\<lambda>p. fst (padPosition p)) pads)"
    and rp: "\<forall>p \<in> set pads. GetBoundingRadius E p \<le> max_size"
    and rhp: "\<forall>p \<in> set pads. GetBoundingRadius E (holePad E p) \<le> max_size"
    and rh: "GetBoundingRadius E (holePad E ref) \<le> GetBoundingRadius E ref"
    and cl: "\<forall>p \<in> set pads. fst (GetClearance E p) \<le> fst (GetClearance E ref)"
    and xl: "max_size + x_limit_of E ref \<le> xl"
  shows "doPadToPadsDrc E ref pads xl = doPadToPadsDrc E ref pads (max_size + x_limit_of E ref)"
  using srt rp rhp cl
proof (induction pads)
  case Nil
  then show ?case by simp
next
  case (Cons a pads)
  have IH: "doPadToPadsDrc E ref pads xl = doPadToPadsDrc E ref pads (max_size + x_limit_of E ref)"
    using Cons by simp
  show ?case
  proof (cases "max_size + x_limit_of E ref < fst (padPosition a)")
    case False
    then show ?thesis using IH xl by (auto split: step.splits)
  next
    case True
    have all: "\<forall>p \<in> set (a # pads). max_size + x_limit_of E ref < fst (padPosition p)"
      using True Cons.prems(1) by auto
    have "doPadToPadsDrc E ref (a # pads) xl = (True, [])"
      using beyond_limit_scan[OF bc all _ _ rh] Cons.prems by blast
    moreover have "doPadToPadsDrc E ref (a # pads) (max_size + x_limit_of E ref) = (True, [])"
      using beyond_limit_scan[OF bc all _ _ rh] Cons.prems by blast
    ultimately show ?thesis by simp
  qed
qed

subsection \<open>Claim C5: one violation per reference pad and call\<close>



subsection \<open>Claim C2: the early exit of the scan\<close>

text \<open>
  What holds of the bound. Let the clearance test accept every pair of pads whose centres
  are farther apart than the clearance plus the two bounding radii (\<open>boundingCircleTest\<close>),
  let the pads be sorted by x, let \<open>max_size\<close> bound the bounding radii of the pads and of
  their holes, let the hole of the reference pad lie within its bounding circle, and let no
  pad have a larger clearance than the reference pad. Then the scan with the limit
  \<open>max_size + x_limit_of E ref\<close> finds what the scan with any larger limit finds
  (\<open>early_exit_sound\<close>), and a candidate beyond the limit always passes the test against
  the reference pad with the clearance of the reference pad (\<open>beyond_limit_pad_test\<close>).

  Claim C2. The claim is that the stop at the limit never skips a pair that would have
  violated clearance. The source does not have this property, because the limit holds the
  clearance of the reference pad only, while the test of the hole of the reference pad
  against a candidate on other copper layers uses the clearance of the candidate. On the
  sample board the reference pad (at x = 0, radius 5, hole of radius 4, clearance 1, layer
  0) gives the limit 11; the candidate (at x = 20, radius 5, clearance 100, layer 31) is
  beyond it, so \<^verbatim>\<open>testPad2Pad\<close> reports nothing. The same scan with the limit 20 reaches the
  candidate and reports \<^verbatim>\<open>DRCE_HOLE_NEAR_PAD\<close>: the candidate is 11 from the hole, and its
  clearance is 100.
\<close>

theorem early_exit_skips_hole_violation:
  "testPad2Pad exPadEnv [exPad 1 0 10 8 0 1, exPad 2 20 10 0 31 2] = []
   \<and> doPadToPadsDrc exPadEnv (exPad 1 0 10 8 0 1) [exPad 1 0 10 8 0 1, exPad 2 20 10 0 31 2] 20
       = (False, [clearanceMarker DRCE_HOLE_NEAR_PAD ''netclass'' 100 11 1 2 (0, 0)])
   \<and> max_size_loop exPadEnv [exPad 1 0 10 8 0 1, exPad 2 20 10 0 31 2] 0
       + x_limit_of exPadEnv (exPad 1 0 10 8 0 1) = 11"
  by (simp add: testPad2Pad_def exPad_eval floor_sqrt.simps)


subsection \<open>Zones\<close>

lemma conflictPoints_update_sorted:
  "sorted_wrt (<) (map fst m) \<Longrightarrow> sorted_wrt (<) (map fst (conflictPoints_update pt d m))
     \<and> set (map fst (conflictPoints_update pt d m)) = insert pt (set (map fst m))"
proof (induction m)
  case Nil
  then show ?case by simp
next
  case (Cons a m)
  obtain k v where a: "a = (k, v)" by (cases a)
  show ?case
  proof (cases "pt = k")
    case True
    then show ?thesis using Cons.prems a by auto
  next
    case False
    show ?thesis
    proof (cases "pt < k")
      case True
      then show ?thesis using Cons.prems a False by auto
    next
      case notless: False
      then have "k < pt" using False by auto
      then show ?thesis using Cons a False notless by auto
    qed
  qed
qed

lemma conflictPoints_update_map_of:
  "sorted_wrt (<) (map fst m) \<Longrightarrow>
   map_of (conflictPoints_update pt d m)
     = (map_of m)(pt \<mapsto> (case map_of m pt of None \<Rightarrow> d | Some v \<Rightarrow> min v d))"
proof (induction m)
  case Nil
  then show ?case by simp
next
  case (Cons a m)
  obtain k v where a: "a = (k, v)" by (cases a)
  show ?case
  proof (cases "pt = k")
    case True
    then show ?thesis using a by auto
  next
    case False
    show ?thesis
    proof (cases "pt < k")
      case True
      have "pt \<notin> set (map fst m)"
        using Cons.prems a True by (auto simp: less_le_not_le dest: order.strict_trans)
      then have "map_of m pt = None"
        by (simp add: map_of_eq_None_iff)
      then show ?thesis using a False True by auto
    next
      case notless: False
      have "sorted_wrt (<) (map fst m)" using Cons.prems by simp
      then show ?thesis using Cons.IH a False notless by (auto simp: fun_upd_twist)
    qed
  qed
qed

lemma foldl_upd_sorted:
  "sorted_wrt (<) (map fst m) \<Longrightarrow> sorted_wrt (<) (map fst (foldl recordConflict m obs))"
  by (induction obs arbitrary: m) (simp_all add: recordConflict_def conflictPoints_update_sorted)

lemma foldl_upd_map_of:
  "sorted_wrt (<) (map fst m) \<Longrightarrow>
   map_of (foldl recordConflict m obs) pt =
     (case map_of m pt of
        None \<Rightarrow> (if separationsAt obs pt = {} then None else Some (Min (separationsAt obs pt)))
      | Some v \<Rightarrow> Some (Min (insert v (separationsAt obs pt))))"
proof (induction obs arbitrary: m)
  case Nil
  then show ?case by (simp add: separationsAt_def split: option.splits)
next
  case (Cons a obs)
  obtain p d where a: "a = (p, d)" by (cases a)
  let ?m = "conflictPoints_update p d m"
  have srt: "sorted_wrt (<) (map fst ?m)"
    using conflictPoints_update_sorted[OF Cons.prems] by simp
  have fin: "finite (separationsAt obs pt)"
  proof -
    have "separationsAt obs pt \<subseteq> snd ` set obs" by (force simp: separationsAt_def)
    then show ?thesis by (rule finite_subset) simp
  qed
  have step: "map_of (foldl recordConflict m (a # obs)) pt =
     (case map_of ?m pt of
        None \<Rightarrow> (if separationsAt obs pt = {} then None else Some (Min (separationsAt obs pt)))
      | Some v \<Rightarrow> Some (Min (insert v (separationsAt obs pt))))"
  proof -
    have "foldl recordConflict m (a # obs) = foldl recordConflict ?m obs" by (simp add: recordConflict_def a)
    then show ?thesis using Cons.IH[OF srt] by simp
  qed
  have mo: "map_of ?m = (map_of m)(p \<mapsto> (case map_of m p of None \<Rightarrow> d | Some v \<Rightarrow> min v d))"
    by (rule conflictPoints_update_map_of[OF Cons.prems])
  show ?case
  proof (cases "p = pt")
    case False
    then have eq: "separationsAt (a # obs) pt = separationsAt obs pt"
      by (auto simp: separationsAt_def a)
    show ?thesis unfolding step eq using False by (simp add: mo)
  next
    case True
    have sep: "separationsAt (a # obs) pt = insert d (separationsAt obs pt)"
      using True by (auto simp: separationsAt_def a)
    show ?thesis
    proof (cases "map_of m pt")
      case None
      then have "map_of ?m pt = Some d" using mo True by simp
      then show ?thesis unfolding step sep using None by simp
    next
      case (Some v)
      then have "map_of ?m pt = Some (min v d)" using mo True by simp
      moreover have "Min (insert (min v d) (separationsAt obs pt))
          = Min (insert v (insert d (separationsAt obs pt)))"
      proof (cases "separationsAt obs pt = {}")
        case True
        then show ?thesis by (simp add: min.commute)
      next
        case False
        then show ?thesis using fin by (simp add: min.assoc)
      qed
      ultimately show ?thesis unfolding step sep using Some by simp
    qed
  qed
qed

lemma foldl_filter_upd:
  "foldl (\<lambda>m obs. if snd obs < c then recordConflict m obs else m) m xs
     = foldl recordConflict m (filter (\<lambda>obs. snd obs < c) xs)"
  by (induction xs arbitrary: m) simp_all

lemma inner_fold:
  "foldl (segmentStep E c refSegment) m testSegs
     = foldl (\<lambda>m obs. if snd obs < c then recordConflict m obs else m) m
         (map (\<lambda>testSegment. (snd (GetClearanceBetweenSegments E testSegment refSegment c),
                               fst (GetClearanceBetweenSegments E testSegment refSegment c))) testSegs)"
  by (induction testSegs arbitrary: m) (simp_all add: segmentStep_def recordConflict_def Let_def)

lemma outer_fold:
  "foldl (\<lambda>m refSegment. foldl (segmentStep E c refSegment) m testSegs) m refSegs
     = foldl (\<lambda>m obs. if snd obs < c then recordConflict m obs else m) m
         (concat (map (\<lambda>refSegment.
                       map (\<lambda>testSegment.
                              (snd (GetClearanceBetweenSegments E testSegment refSegment c),
                               fst (GetClearanceBetweenSegments E testSegment refSegment c)))
                         testSegs) refSegs))"
  by (induction refSegs arbitrary: m) (simp_all add: inner_fold)

lemma zoneConflictPoints_fold:
  "zoneConflictPoints E c refPoly testPoly = foldl recordConflict [] (segmentObservations E c refPoly testPoly)"
  by (simp add: zoneConflictPoints_def segmentObservations_def outer_fold foldl_filter_upd)

lemma zoneConflictPoints_sorted:
  "sorted_wrt (<) (map fst (zoneConflictPoints E c refPoly testPoly))"
  by (simp add: zoneConflictPoints_fold foldl_upd_sorted)

lemma zoneConflictPoints_map_of:
  "map_of (zoneConflictPoints E c refPoly testPoly) pt =
     (if separationsAt (segmentObservations E c refPoly testPoly) pt = {} then None
      else Some (Min (separationsAt (segmentObservations E c refPoly testPoly) pt)))"
  by (simp add: zoneConflictPoints_fold foldl_upd_map_of)


lemma zoneConflictPoints_distinct:
  "distinct (map fst (zoneConflictPoints E c refPoly testPoly))"
  using zoneConflictPoints_sorted[of E c refPoly testPoly]
  by (simp add: strict_sorted_iff)

lemma finite_separationsAt: "finite (separationsAt obs pt)"
proof -
  have "separationsAt obs pt \<subseteq> snd ` set obs" by (force simp: separationsAt_def)
  then show ?thesis by (rule finite_subset) simp
qed

lemma conflict_is_observed:
  assumes "(pt, d) \<in> set (zoneConflictPoints E c refPoly testPoly)"
  shows "(pt, d) \<in> set (segmentObservations E c refPoly testPoly)"
proof -
  let ?S = "separationsAt (segmentObservations E c refPoly testPoly) pt"
  have "map_of (zoneConflictPoints E c refPoly testPoly) pt = Some d"
    using assms zoneConflictPoints_distinct by (simp add: map_of_is_SomeI)
  then have ne: "?S \<noteq> {}" and d: "d = Min ?S"
    by (simp_all add: zoneConflictPoints_map_of split: if_splits)
  have "Min ?S \<in> ?S" using ne finite_separationsAt by (rule_tac Min_in) simp_all
  then show ?thesis using d by (simp add: separationsAt_def)
qed

lemma observed_below_clearance:
  "(pt, d) \<in> set (segmentObservations E c refPoly testPoly) \<Longrightarrow>
     d < c \<and> (\<exists>refSegment \<in> set (polySegments refPoly). \<exists>testSegment \<in> set (polySegments testPoly).
                 GetClearanceBetweenSegments E testSegment refSegment c = (d, pt))"
  by (auto simp: segmentObservations_def) blast

lemma conflictMarker_code:
  "markerCode (conflictMarker src c a b (pt, d))
     = (if d \<le> 0 then DRCE_ZONES_INTERSECT else DRCE_ZONES_TOO_CLOSE)"
  by (simp add: conflictMarker_def markerCode_def new_MARKER_PCB_def SetItems2_def
      SetErrorMessage_def new_DRC_ITEM_def Let_def)

lemma zoneInnerLoop_eq:
  "zoneInnerLoop E ref tests =
     concat (map (zonePairMarkers E ref)
               (filter (\<lambda>test. \<not> zonePairSkipped (fst ref) (fst test)) tests))"
  by (induction tests) simp_all

lemma zoneOuterLoop_eq:
  "zoneOuterLoop E zs =
     concat (map (\<lambda>(ref, test). zonePairMarkers E ref test)
               (filter (\<lambda>(ref, test). IsOnCopperLayer E (fst ref)
                                      \<and> \<not> zonePairSkipped (fst ref) (fst test))
                  (orderedPairs zs)))"
proof (induction zs)
  case Nil
  then show ?case by simp
next
  case (Cons ref rest)
  have "concat (map (\<lambda>(ref, test). zonePairMarkers E ref test)
               (filter (\<lambda>(ref, test). IsOnCopperLayer E (fst ref)
                                      \<and> \<not> zonePairSkipped (fst ref) (fst test))
                  (map (Pair ref) rest)))
        = (if \<not> IsOnCopperLayer E (fst ref) then [] else zoneInnerLoop E ref rest)"
    by (simp add: zoneInnerLoop_eq filter_map comp_def)
  then show ?case using Cons.IH by simp
qed

lemmas exZone_eval = exZoneEnv_def exZone_def exArea_def zonePairSkipped_def zonePairMarkers_def
  cornerMarkers_def segmentMarkers_def zone2zoneClearance_def zoneConflictPoints_def
  segmentStep_def conflictMarker_def Let_def TestZoneToZoneOutlines_def



lemma ex_far_zones:
  "TestZoneToZoneOutlines exZoneEnv [exZone 1 1 0 False, exZone 2 2 3 False, exZone 3 1 6 False]
   = [conflictMarker ''board'' 5 1 2 ((0, 0), 3), conflictMarker ''board'' 5 1 2 ((0, 1), 2),
      conflictMarker ''board'' 5 2 3 ((0, 3), 3), conflictMarker ''board'' 5 2 3 ((0, 4), 2)]"
  by (simp add: exZone_eval)


subsection \<open>Claim C4: the zone pairs that are skipped\<close>

text \<open>
  Claim C4, as amended. A candidate pair is skipped exactly when the two zones are the same
  zone, or are on different layers, or have the same net with a net number of 0 or more, or
  have different priorities, or one is a keepout and the other is not. The markers of
  \<^verbatim>\<open>TestZoneToZoneOutlines\<close> are those of the examination (corners of each outline inside the
  other, then the separation of the segments) of every pair of a zone on copper and a later
  zone that is not skipped, in the order of the two loops.
\<close>

theorem zone_pairs_skipped_and_examined:
  "(zonePairSkipped a b \<longleftrightarrow>
      zoneRef a = zoneRef b
      \<or> zoneLayer a \<noteq> zoneLayer b
      \<or> (zoneNetCode a = zoneNetCode b \<and> zoneNetCode a \<ge> 0)
      \<or> zonePriority a \<noteq> zonePriority b
      \<or> zoneIsKeepout a \<noteq> zoneIsKeepout b)
   \<and> TestZoneToZoneOutlines E zones =
       concat (map (\<lambda>(ref, test). zonePairMarkers E ref test)
                 (filter (\<lambda>(ref, test). IsOnCopperLayer E (fst ref)
                                        \<and> \<not> zonePairSkipped (fst ref) (fst test))
                    (orderedPairs (zip zones (map (BuildSmoothedPoly E) zones)))))"
  by (simp add: zonePairSkipped_def TestZoneToZoneOutlines_def zoneOuterLoop_eq Let_def)

theorem zone_pairs_skipped_and_examined_witness:
  "zonePairSkipped (exZone 1 1 0 False) (exZone 3 1 6 False)
   \<and> \<not> zonePairSkipped (exZone 1 1 0 False) (exZone 2 2 3 False)
   \<and> TestZoneToZoneOutlines exZoneEnv [exZone 1 1 0 False, exZone 2 2 3 False, exZone 3 1 6 False]
       = zonePairMarkers exZoneEnv (exArea 1 1 0 False) (exArea 2 2 3 False)
         @ zonePairMarkers exZoneEnv (exArea 2 2 3 False) (exArea 3 1 6 False)"
proof -
  have skip: "zonePairSkipped (exZone 1 1 0 False) (exZone 3 1 6 False)"
    "\<not> zonePairSkipped (exZone 1 1 0 False) (exZone 2 2 3 False)"
    "\<not> zonePairSkipped (exZone 2 2 3 False) (exZone 3 1 6 False)"
    by (simp_all add: exZone_def zonePairSkipped_def)
  have cu: "IsOnCopperLayer exZoneEnv z" for z
    by (simp add: exZoneEnv_def)
  show ?thesis
    using zone_pairs_skipped_and_examined[of "exZone 1 1 0 False" "exZone 3 1 6 False" exZoneEnv
        "[exZone 1 1 0 False, exZone 2 2 3 False, exZone 3 1 6 False]"]
      skip cu
    by (simp add: exArea_def)
qed

text \<open>
  The claim as stated (same net with a net number greater than 0) fails for two zones of net
  0: the source tests \<^verbatim>\<open>GetNetCode() >= 0\<close>, so the pair is skipped and nothing is reported,
  although the zones are on the same layer, have the same priority, are no keepouts, and are
  closer than the clearance.
\<close>

theorem zones_of_net_zero_are_skipped:
  "zonePairSkipped (exZone 1 0 0 False) (exZone 2 0 3 False)
   \<and> \<not> specSkipped (exZone 1 0 0 False) (exZone 2 0 3 False)
   \<and> TestZoneToZoneOutlines exZoneEnv [exZone 1 0 0 False, exZone 2 0 3 False] = []
   \<and> zonePairMarkers exZoneEnv (exArea 1 0 0 False) (exArea 2 0 3 False)
       = [conflictMarker ''board'' 5 1 2 ((0, 0), 3), conflictMarker ''board'' 5 1 2 ((0, 1), 2)]"
  by (simp add: specSkipped_def exZone_eval)

subsection \<open>Claim C3: the conflict points of a pair\<close>



subsection \<open>Claim C10: keepout pairs\<close>

text \<open>
  Claim C10. When the reference zone of a pair is a keepout, the clearance of the segment
  test is 1, whatever \<^verbatim>\<open>GetClearance\<close> returns; every separation in the map of conflict points
  is then at most 0, and is 0 when \<^verbatim>\<open>GetClearanceBetweenSegments\<close> returns no negative
  value; every marker of the segments is \<^verbatim>\<open>DRCE_ZONES_INTERSECT\<close>, without a message: no
  \<^verbatim>\<open>DRCE_ZONES_TOO_CLOSE\<close> is reported for the pair.
\<close>

theorem keepout_pairs_report_intersections_only:
  "zoneIsKeepout (fst ref) \<longrightarrow>
     zone2zoneClearance E (fst ref) (fst test) = 1
     \<and> (\<forall>pt d. (pt, d) \<in> set (zoneConflictPoints E (zone2zoneClearance E (fst ref) (fst test))
                                 (snd ref) (snd test))
           \<longrightarrow> d \<le> 0
               \<and> ((\<forall>b a c. 0 \<le> fst (GetClearanceBetweenSegments E b a c)) \<longrightarrow> d = 0))
     \<and> (\<forall>m \<in> set (segmentMarkers E ref test).
           markerCode m = DRCE_ZONES_INTERSECT \<and> errorMessage (rcItem m) = None)"
proof
  assume k: "zoneIsKeepout (fst ref)"
  then have c1: "zone2zoneClearance E (fst ref) (fst test) = 1"
    by (simp add: zone2zoneClearance_def)
  have obs: "d < 1 \<and> (\<exists>b a. d = fst (GetClearanceBetweenSegments E b a 1))"
    if "(pt, d) \<in> set (zoneConflictPoints E 1 (snd ref) (snd test))" for pt d
  proof -
    have "(pt, d) \<in> set (segmentObservations E 1 (snd ref) (snd test))"
      using that by (rule conflict_is_observed)
    then obtain a b where "d < 1" "GetClearanceBetweenSegments E b a 1 = (d, pt)"
      using observed_below_clearance by blast
    then show ?thesis by (metis fst_conv)
  qed
  have vals: "\<forall>pt d. (pt, d) \<in> set (zoneConflictPoints E 1 (snd ref) (snd test))
           \<longrightarrow> d \<le> 0
               \<and> ((\<forall>b a c. 0 \<le> fst (GetClearanceBetweenSegments E b a c)) \<longrightarrow> d = 0)"
  proof (intro allI impI)
    fix pt d
    assume "(pt, d) \<in> set (zoneConflictPoints E 1 (snd ref) (snd test))"
    from obs[OF this] obtain b a where "d < 1" "d = fst (GetClearanceBetweenSegments E b a 1)"
      by blast
    then show "d \<le> 0 \<and> ((\<forall>b a c. 0 \<le> fst (GetClearanceBetweenSegments E b a c)) \<longrightarrow> d = 0)"
      by (metis add_le_same_cancel1 dual_order.antisym int_one_le_iff_zero_less not_le zless_imp_add1_zle)
  qed
  have marks: "\<forall>m \<in> set (segmentMarkers E ref test).
           markerCode m = DRCE_ZONES_INTERSECT \<and> errorMessage (rcItem m) = None"
  proof
    fix m
    assume "m \<in> set (segmentMarkers E ref test)"
    then obtain pt d where pd: "(pt, d) \<in> set (zoneConflictPoints E 1 (snd ref) (snd test))"
      and m: "m = conflictMarker (snd (zoneGetClearance E (fst ref) (fst test))) 1
                    (zoneRef (fst ref)) (zoneRef (fst test)) (pt, d)"
      by (auto simp: segmentMarkers_def c1 Let_def)
    have "d \<le> 0" using vals pd by blast
    then show "markerCode m = DRCE_ZONES_INTERSECT \<and> errorMessage (rcItem m) = None"
      by (simp add: m conflictMarker_def markerCode_def new_MARKER_PCB_def SetItems2_def
          new_DRC_ITEM_def Let_def)
  qed
  show "zone2zoneClearance E (fst ref) (fst test) = 1
     \<and> (\<forall>pt d. (pt, d) \<in> set (zoneConflictPoints E (zone2zoneClearance E (fst ref) (fst test))
                                 (snd ref) (snd test))
           \<longrightarrow> d \<le> 0
               \<and> ((\<forall>b a c. 0 \<le> fst (GetClearanceBetweenSegments E b a c)) \<longrightarrow> d = 0))
     \<and> (\<forall>m \<in> set (segmentMarkers E ref test).
           markerCode m = DRCE_ZONES_INTERSECT \<and> errorMessage (rcItem m) = None)"
    using c1 vals marks by simp
qed

theorem keepout_pairs_report_intersections_only_witness:
  "zoneIsKeepout (fst (exArea 1 1 0 True))
   \<and> zone2zoneClearance exZoneEnv (fst (exArea 1 1 0 True)) (fst (exArea 2 2 0 True)) = 1
   \<and> fst (zoneGetClearance exZoneEnv (fst (exArea 1 1 0 True)) (fst (exArea 2 2 0 True))) = 5
   \<and> map markerCode (segmentMarkers exZoneEnv (exArea 1 1 0 True) (exArea 2 2 0 True))
       = [DRCE_ZONES_INTERSECT, DRCE_ZONES_INTERSECT]
   \<and> segmentMarkers exZoneEnv (exArea 1 1 0 True) (exArea 2 2 3 True) = []"
proof -
  have k: "zoneIsKeepout (fst (exArea 1 1 0 True))"
    by (simp add: exArea_def exZone_def)
  have ev: "fst (zoneGetClearance exZoneEnv (fst (exArea 1 1 0 True)) (fst (exArea 2 2 0 True))) = 5"
    "map markerCode (segmentMarkers exZoneEnv (exArea 1 1 0 True) (exArea 2 2 0 True))
       = [DRCE_ZONES_INTERSECT, DRCE_ZONES_INTERSECT]"
    "segmentMarkers exZoneEnv (exArea 1 1 0 True) (exArea 2 2 3 True) = []"
    by (simp_all add: exZone_eval markerCode_def new_MARKER_PCB_def SetItems2_def new_DRC_ITEM_def)
  show ?thesis
    using keepout_pairs_report_intersections_only[of "exArea 1 1 0 True" exZoneEnv "exArea 2 2 0 True"] k ev by simp
qed


subsection \<open>Footprints\<close>

lemma firstWithKey_sorted:
  "sortedByKey mods \<Longrightarrow> firstWithKey mods k = Some x \<longleftrightarrow> x \<in> set mods \<and> refKey x = k"
proof (induction mods)
  case Nil
  then show ?case by (simp add: firstWithKey_def)
next
  case (Cons a mods)
  then show ?case by (auto simp: firstWithKey_def)
qed

lemma firstWithKey_None: "firstWithKey mods k = None \<longleftrightarrow> (\<forall>x \<in> set mods. refKey x \<noteq> k)"
  by (auto simp: firstWithKey_def find_None_iff)

lemma firstWithKey_append:
  "firstWithKey (xs @ ys) k = (case firstWithKey xs k of Some x \<Rightarrow> Some x | None \<Rightarrow> firstWithKey ys k)"
  by (induction xs) (simp_all add: firstWithKey_def)

lemma mods_insert_spec:
  assumes "sortedByKey mods"
  shows "case firstWithKey mods (refKey m) of
           Some x \<Rightarrow> mods_insert m mods = (mods, x, False)
         | None \<Rightarrow> (\<exists>mods'. mods_insert m mods = (mods', m, True) \<and> sortedByKey mods'
                        \<and> set mods' = insert m (set mods))"
  using assms
proof (induction mods)
  case Nil
  then show ?case by (simp add: firstWithKey_def)
next
  case (Cons a mods)
  consider (lt) "refKey m < refKey a" | (gt) "refKey a < refKey m" | (eq) "refKey a = refKey m"
    by (metis linorder_less_linear)
  then show ?case
  proof cases
    case lt
    have "\<forall>x \<in> set (a # mods). refKey x \<noteq> refKey m"
      using lt Cons.prems by (auto dest: order.strict_trans)
    then have "firstWithKey (a # mods) (refKey m) = None"
      by (simp add: firstWithKey_None)
    moreover have "sortedByKey (m # a # mods)"
      using lt Cons.prems by (auto dest: order.strict_trans)
    ultimately show ?thesis using lt by (simp add: comp_mod_def)
  next
    case gt
    have s: "sortedByKey mods" using Cons.prems by simp
    have f: "firstWithKey (a # mods) (refKey m) = firstWithKey mods (refKey m)"
      using gt by (auto simp: firstWithKey_def)
    have nlt: "\<not> refKey m < refKey a" using gt by simp
    show ?thesis
    proof (cases "firstWithKey mods (refKey m)")
      case None
      then obtain mods' where h: "mods_insert m mods = (mods', m, True)" "sortedByKey mods'"
        "set mods' = insert m (set mods)"
        using Cons.IH[OF s] by auto
      have "sortedByKey (a # mods')" using h(2,3) gt Cons.prems by auto
      then show ?thesis using None f h gt nlt by (auto simp: comp_mod_def)
    next
      case (Some x)
      then have "mods_insert m mods = (mods, x, False)"
        using Cons.IH[OF s] by simp
      then show ?thesis using Some f gt nlt by (simp add: comp_mod_def)
    qed
  next
    case eq
    then show ?thesis by (simp add: firstWithKey_def comp_mod_def)
  qed
qed

lemma duplicateLoop_spec:
  assumes "sortedByKey mods" and "\<forall>k. firstWithKey mods k = firstWithKey pre k"
  shows "sortedByKey (fst (duplicateLoop ms (mods, l)))
         \<and> (\<forall>k. firstWithKey (fst (duplicateLoop ms (mods, l))) k = firstWithKey (pre @ ms) k)
         \<and> snd (duplicateLoop ms (mods, l)) = l @ duplicateItems pre ms"
  using assms
proof (induction ms arbitrary: mods l pre)
  case Nil
  then show ?case by simp
next
  case (Cons m ms)
  show ?case
  proof (cases "firstWithKey mods (refKey m)")
    case None
    then obtain mods' where h: "mods_insert m mods = (mods', m, True)" "sortedByKey mods'"
      "set mods' = insert m (set mods)"
      using mods_insert_spec[OF Cons.prems(1), of m] by auto
    have inv: "\<forall>k. firstWithKey mods' k = firstWithKey (pre @ [m]) k"
    proof
      fix k
      show "firstWithKey mods' k = firstWithKey (pre @ [m]) k"
      proof (cases "firstWithKey mods k")
        case (Some x)
        then have "x \<in> set mods \<and> refKey x = k"
          using firstWithKey_sorted[OF Cons.prems(1)] by simp
        then have "firstWithKey mods' k = Some x"
          using firstWithKey_sorted[OF h(2)] h(3) by simp
        then show ?thesis using Some Cons.prems(2) by (simp add: firstWithKey_append)
      next
        case nk: None
        show ?thesis
        proof (cases "refKey m = k")
          case True
          then have "firstWithKey mods' k = Some m"
            using firstWithKey_sorted[OF h(2)] h(3) by simp
          then show ?thesis using nk Cons.prems(2) True
            by (simp add: firstWithKey_append) (simp add: firstWithKey_def)
        next
          case False
          have "\<forall>x \<in> set mods'. refKey x \<noteq> k"
            using nk False h(3) by (auto simp: firstWithKey_None)
          then have "firstWithKey mods' k = None" by (simp add: firstWithKey_None)
          then show ?thesis using nk Cons.prems(2) False
            by (simp add: firstWithKey_append) (simp add: firstWithKey_def)
        qed
      qed
    qed
    have pre_none: "firstWithKey pre (refKey m) = None"
      using None Cons.prems(2) by simp
    show ?thesis
      using Cons.IH[OF h(2) inv, of l] h(1) pre_none by simp
  next
    case (Some x)
    then have ins: "mods_insert m mods = (mods, x, False)"
      using mods_insert_spec[OF Cons.prems(1), of m] by simp
    have inv: "\<forall>k. firstWithKey mods k = firstWithKey (pre @ [m]) k"
    proof
      fix k
      show "firstWithKey mods k = firstWithKey (pre @ [m]) k"
      proof (cases "firstWithKey pre k")
        case (Some y)
        then show ?thesis using Cons.prems(2) by (simp add: firstWithKey_append)
      next
        case None
        then have "k \<noteq> refKey m" using Some Cons.prems(2) by auto
        then show ?thesis using None Cons.prems(2)
          by (simp add: firstWithKey_append) (auto simp: firstWithKey_def)
      qed
    qed
    have pre_some: "firstWithKey pre (refKey m) = Some x"
      using Some Cons.prems(2) by simp
    show ?thesis
      using Cons.IH[OF Cons.prems(1) inv, of "l @ [duplicateItem m x]"] ins pre_some
      by (simp add: duplicateItem_def)
  qed
qed


lemma duplicateLoop_all:
  "sortedByKey (fst (duplicateLoop modules ([], l)))
   \<and> (\<forall>k. firstWithKey (fst (duplicateLoop modules ([], l))) k = firstWithKey modules k)
   \<and> snd (duplicateLoop modules ([], l)) = l @ duplicateItems [] modules"
  using duplicateLoop_spec[of "[]" "[]" modules l] by simp

lemma mods_members:
  "x \<in> set (fst (duplicateLoop modules ([], l))) \<longleftrightarrow> firstWithKey modules (refKey x) = Some x"
  using duplicateLoop_all[of modules l]
    firstWithKey_sorted[of "fst (duplicateLoop modules ([], l))" "refKey x" x]
  by auto

lemma mods_distinct: "distinct (fst (duplicateLoop modules ([], l)))"
proof -
  have "sortedByKey (fst (duplicateLoop modules ([], l)))"
    using duplicateLoop_all by blast
  then have "sorted_wrt (\<lambda>a b. a \<noteq> b) (fst (duplicateLoop modules ([], l)))"
    by (rule sorted_wrt_mono_rel[rotated]) auto
  then show ?thesis by (simp add: distinct_conv_nth sorted_wrt_iff_nth_less)
      (metis nat_neq_iff)
qed

lemma firstWithKey_in: "firstWithKey ms k = Some x \<Longrightarrow> x \<in> set ms \<and> refKey x = k"
  by (auto simp: firstWithKey_def find_Some_iff)

lemma duplicateItems_codes:
  "i \<in> set (duplicateItems pre ms) \<Longrightarrow> errorCode i = DRCE_DUPLICATE_FOOTPRINT"
  by (induction ms arbitrary: pre)
     (auto simp: duplicateItem_def SetItems2_def new_DRC_ITEM_def split: option.splits)

lemma duplicateItems_mem:
  "firstWithKey (pre @ pre') (refKey m) = Some x \<Longrightarrow>
   duplicateItem m x \<in> set (duplicateItems pre (pre' @ m # post))"
proof (induction pre' arbitrary: pre)
  case Nil
  then show ?case by simp
next
  case (Cons a pre')
  have "firstWithKey ((pre @ [a]) @ pre') (refKey m) = Some x"
    using Cons.prems by simp
  from Cons.IH[OF this] show ?case by simp
qed

lemma extraItemsFor_Nil [simp]: "extraItemsFor m [] = []"
  by (simp add: extraItemsFor_def)

lemma extraItemsFor_append [simp]:
  "extraItemsFor m (xs @ ys) = extraItemsFor m xs @ extraItemsFor m ys"
  by (simp add: extraItemsFor_def)

lemma extraItemsFor_duplicates [simp]: "extraItemsFor m (duplicateItems pre ms) = []"
  using duplicateItems_codes by (auto simp: extraItemsFor_def filter_empty_conv)

lemma extraItemsFor_missing [simp]: "extraItemsFor m (map missingItem cs) = []"
  by (auto simp: extraItemsFor_def filter_empty_conv missingItem_def SetErrorMessage_def
      new_DRC_ITEM_def)

lemma extraItemsFor_extra:
  "extraItemsFor m (map extraItem xs) = map extraItem (filter (\<lambda>x. modRef x = modRef m) xs)"
  by (induction xs) (simp_all add: extraItemsFor_def extraItem_def SetItems1_def new_DRC_ITEM_def)

lemma TestFootprints_eq:
  assumes "\<not> Ignore g DRCE_DUPLICATE_FOOTPRINT" and "\<not> Ignore g DRCE_EXTRA_FOOTPRINT"
  shows "TestFootprints E g netlist modules l =
           l @ duplicateItems [] modules
           @ (if \<not> Ignore g DRCE_MISSING_FOOTPRINT
              then map missingItem
                     (filter (\<lambda>component. FindModuleByReference E modules (compReference component) = None)
                        netlist)
              else [])
           @ map extraItem
               (filter (\<lambda>m. GetComponentByReference E netlist (modReference m) = None)
                  (fst (duplicateLoop modules ([], l))))"
  using assms duplicateLoop_all[of modules l] by (simp add: TestFootprints_def Let_def)

lemma count_one:
  assumes "distinct xs" and "inj_on f (insert m (set xs))"
  shows "length (filter (\<lambda>x. f x = f m) xs) = (if m \<in> set xs then 1 else 0)"
proof -
  have "filter (\<lambda>x. f x = f m) xs = filter (\<lambda>x. x = m) xs"
    using assms(2) by (intro filter_cong) (auto simp: inj_on_def)
  moreover have "length (filter (\<lambda>x. x = m) xs) = (if m \<in> set xs then 1 else 0)"
    using assms(1) by (induction xs) auto
  ultimately show ?thesis by simp
qed

lemma ex_lower:
  "toLower CHR ''R'' = CHR ''r''" "toLower CHR ''r'' = CHR ''r''"
  "toLower CHR ''D'' = CHR ''d''" "toLower CHR ''1'' = CHR ''1''" "toLower CHR ''2'' = CHR ''2''"
  by code_simp+

lemma ex_keys [simp]: "refKey (exModule r n) = map toLower n"
  by (simp add: refKey_def exModule_def)

lemma exModule_sel [simp]: "modRef (exModule r n) = r" "modReference (exModule r n) = n"
  by (simp_all add: exModule_def)

lemma ex_first: "firstWithKey exModules (refKey (exModule 1 ''R1'')) = Some (exModule 1 ''R1'')"
  by (simp add: firstWithKey_def exModules_def ex_lower)

lemma ex_ignore:
  "\<not> Ignore (exIgnore []) c"
  "\<not> Ignore (exIgnore [DRCE_DUPLICATE_FOOTPRINT]) DRCE_EXTRA_FOOTPRINT"
  "Ignore (exIgnore [DRCE_DUPLICATE_FOOTPRINT]) DRCE_DUPLICATE_FOOTPRINT"
  "\<not> Ignore (exIgnore [DRCE_DUPLICATE_FOOTPRINT]) DRCE_MISSING_FOOTPRINT"
  by (simp_all add: exIgnore_def)

text \<open>
  What \<^verbatim>\<open>TestFootprints\<close> does for a footprint that the netlist does not have when the
  duplicate check and the extra-footprint check are both enabled. Let the footprints of
  the board have distinct addresses and \<open>m\<close> be a footprint of the board for which the
  lookup of the netlist finds no component. The board has a first footprint with the
  reference of \<open>m\<close>, case ignored. When that footprint is \<open>m\<close> itself, exactly one item
  \<^verbatim>\<open>DRCE_EXTRA_FOOTPRINT\<close> refers to \<open>m\<close>. When it is another footprint, \<open>m\<close> is a duplicate:
  no \<^verbatim>\<open>DRCE_EXTRA_FOOTPRINT\<close> refers to \<open>m\<close>, and an item \<^verbatim>\<open>DRCE_DUPLICATE_FOOTPRINT\<close> refers
  to \<open>m\<close> and to the first-inserted footprint. In both cases no \<^verbatim>\<open>DRCE_MISSING_FOOTPRINT\<close>
  is produced for a component with the reference of \<open>m\<close>, provided the lookup of the board
  finds that reference.
\<close>

theorem footprints_extra_and_duplicates:
  assumes dup: "\<not> Ignore g DRCE_DUPLICATE_FOOTPRINT"
    and extra: "\<not> Ignore g DRCE_EXTRA_FOOTPRINT"
    and refs: "distinct (map modRef modules)"
    and m: "m \<in> set modules"
    and absent: "GetComponentByReference E netlist (modReference m) = None"
  shows "(\<exists>first. firstWithKey modules (refKey m) = Some first
            \<and> (if first = m
                then length (extraItemsFor m (TestFootprints E g netlist modules [])) = 1
                else extraItemsFor m (TestFootprints E g netlist modules []) = []
                     \<and> duplicateItem m first \<in> set (TestFootprints E g netlist modules [])))
         \<and> (FindModuleByReference E modules (modReference m) \<noteq> None \<longrightarrow>
               (\<forall>c. compReference c = modReference m \<longrightarrow>
                    missingItem c \<notin> set (TestFootprints E g netlist modules [])))"
proof -
  let ?mods = "fst (duplicateLoop modules ([], []))"
  let ?xs = "filter (\<lambda>m. GetComponentByReference E netlist (modReference m) = None) ?mods"
  let ?res = "TestFootprints E g netlist modules []"
  note eq = TestFootprints_eq[OF dup extra, of E netlist modules "[]"]
  obtain first where first: "firstWithKey modules (refKey m) = Some first"
    using m by (cases "firstWithKey modules (refKey m)") (auto simp: firstWithKey_None)
  have sub: "set ?xs \<subseteq> set modules"
    using mods_members[of _ modules "[]"] firstWithKey_in by auto
  have inj: "inj_on modRef (insert m (set ?xs))"
  proof -
    have "inj_on modRef (set modules)" using refs by (simp add: distinct_map)
    moreover have "insert m (set ?xs) \<subseteq> set modules" using sub m by blast
    ultimately show ?thesis by (rule inj_on_subset)
  qed
  have dist: "distinct ?xs" using mods_distinct by simp
  have len: "length (extraItemsFor m ?res) = (if m \<in> set ?xs then 1 else 0)"
    unfolding eq using count_one[OF dist inj] by (simp add: extraItemsFor_extra)
  have mem: "m \<in> set ?xs \<longleftrightarrow> first = m"
    using absent first mods_members[of m modules "[]"] by auto
  have part1: "if first = m then length (extraItemsFor m ?res) = 1
               else extraItemsFor m ?res = [] \<and> duplicateItem m first \<in> set ?res"
  proof (cases "first = m")
    case True
    then have "m \<in> set ?xs" using mem by blast
    then have "length (extraItemsFor m ?res) = 1" using len by presburger
    then show ?thesis using True by simp
  next
    case False
    obtain pre' post where split: "modules = pre' @ m # post" "m \<notin> set pre'"
      using m split_list_first by fastforce
    have "firstWithKey pre' (refKey m) = Some first"
    proof (cases "firstWithKey pre' (refKey m)")
      case None
      then have "firstWithKey modules (refKey m) = Some m"
        by (simp add: split(1) firstWithKey_append) (simp add: firstWithKey_def)
      then show ?thesis using first False by simp
    next
      case (Some y)
      then show ?thesis using first by (simp add: split(1) firstWithKey_append)
    qed
    then have "duplicateItem m first \<in> set (duplicateItems [] modules)"
      using duplicateItems_mem[of "[]" pre' m first post] split(1) by simp
    then have "duplicateItem m first \<in> set ?res" unfolding eq by simp
    moreover have "extraItemsFor m ?res = []"
    proof -
      have "m \<notin> set ?xs" using mem False by blast
      then have "length (extraItemsFor m ?res) = 0" using len by presburger
      then show ?thesis by simp
    qed
    ultimately show ?thesis using False by simp
  qed
  have part2: "FindModuleByReference E modules (modReference m) \<noteq> None \<longrightarrow>
               (\<forall>c. compReference c = modReference m \<longrightarrow> missingItem c \<notin> set ?res)"
  proof (intro impI allI)
    fix c :: COMPONENT
    assume found: "FindModuleByReference E modules (modReference m) \<noteq> None"
      and c: "compReference c = modReference m"
    have "missingItem c \<notin> set (duplicateItems [] modules)"
      using duplicateItems_codes[of "missingItem c" "[]" modules]
      by (auto simp: missingItem_def SetErrorMessage_def new_DRC_ITEM_def)
    moreover have "missingItem c \<notin> set (map extraItem ?xs)"
      by (auto simp: missingItem_def extraItem_def SetErrorMessage_def SetItems1_def new_DRC_ITEM_def)
    moreover have "missingItem c \<notin> set (map missingItem
        (filter (\<lambda>component. FindModuleByReference E modules (compReference component) = None) netlist))"
    proof
      assume "missingItem c \<in> set (map missingItem
        (filter (\<lambda>component. FindModuleByReference E modules (compReference component) = None) netlist))"
      then obtain c' where "missingItem c' = missingItem c"
        "FindModuleByReference E modules (compReference c') = None" by auto
      then show False using found c
        by (auto simp: missingItem_def SetErrorMessage_def new_DRC_ITEM_def)
    qed
    ultimately show "missingItem c \<notin> set ?res" unfolding eq by auto
  qed
  show ?thesis using first part1 part2 by blast
qed

theorem footprints_extra_and_duplicates_witness:
  "\<not> Ignore (exIgnore []) DRCE_DUPLICATE_FOOTPRINT
   \<and> \<not> Ignore (exIgnore []) DRCE_EXTRA_FOOTPRINT
   \<and> distinct (map modRef exModules)
   \<and> exModule 1 ''R1'' \<in> set exModules
   \<and> GetComponentByReference exFpEnv exNetlist (modReference (exModule 1 ''R1'')) = None
   \<and> length (extraItemsFor (exModule 1 ''R1'') (TestFootprints exFpEnv (exIgnore []) exNetlist exModules [])) = 1"
proof -
  have h: "distinct (map modRef exModules)" "exModule 1 ''R1'' \<in> set exModules"
    "GetComponentByReference exFpEnv exNetlist (modReference (exModule 1 ''R1'')) = None"
    by (simp_all add: exModules_def exModule_def exFpEnv_def exNetlist_def)
  show ?thesis
    using footprints_extra_and_duplicates[OF ex_ignore(1) ex_ignore(1) h] ex_first h ex_ignore(1) by auto
qed

text \<open>
  When the duplicate check is disabled, no \<^verbatim>\<open>DRCE_EXTRA_FOOTPRINT\<close> is produced at all,
  whatever the board and the netlist: the set \<^verbatim>\<open>mods\<close> stays empty.
\<close>

lemma no_extra_when_duplicates_ignored:
  assumes "Ignore g DRCE_DUPLICATE_FOOTPRINT"
  shows "extraItemsFor m (TestFootprints E g netlist modules []) = []"
  using assms by (simp add: TestFootprints_def Let_def)

subsection \<open>Claim C8: footprints against the netlist\<close>

text \<open>
  Claim C8: with the extra-footprint check enabled, every footprint of the board that the
  netlist does not have gets exactly one item \<^verbatim>\<open>DRCE_EXTRA_FOOTPRINT\<close>. The code does not do
  so when the duplicate check is disabled. The set \<^verbatim>\<open>mods\<close>, which the search for
  the footprints found on the board but not in the netlist walks, is filled only inside
  the branch \<^verbatim>\<open>!Ignore( DRCE_DUPLICATE_FOOTPRINT )\<close>. For the board of the single footprint
  \<^verbatim>\<open>R1\<close> and the empty netlist, with \<^verbatim>\<open>DRCE_DUPLICATE_FOOTPRINT\<close> ignored and
  \<^verbatim>\<open>DRCE_EXTRA_FOOTPRINT\<close> not ignored, \<^verbatim>\<open>TestFootprints\<close> produces no item; with no error
  code ignored the same board and netlist give the item \<^verbatim>\<open>DRCE_EXTRA_FOOTPRINT\<close> of \<^verbatim>\<open>R1\<close>.
\<close>

theorem extra_footprints_lost_when_duplicates_ignored:
  "\<not> Ignore (exIgnore [DRCE_DUPLICATE_FOOTPRINT]) DRCE_EXTRA_FOOTPRINT
   \<and> GetComponentByReference exFpEnv [] (modReference (exModule 1 ''R1'')) = None
   \<and> TestFootprints exFpEnv (exIgnore [DRCE_DUPLICATE_FOOTPRINT]) [] [exModule 1 ''R1''] [] = []
   \<and> TestFootprints exFpEnv (exIgnore []) [] [exModule 1 ''R1''] [] = [extraItem (exModule 1 ''R1'')]"
  by (simp add: ex_ignore TestFootprints_def Let_def exFpEnv_def)


subsection \<open>The location of a marker\<close>























text \<open>
  The sums of the loop fit a 32-bit \<^verbatim>\<open>int\<close>: the two ends are in range at every iteration,
  for the middle of two points in range is in range, and the sum of the coordinates of two
  points in range fits.
\<close>

lemma inRange_sum_fits:
  assumes "inRange p" and "inRange q"
  shows "fitsInt (fst p + fst q)" and "fitsInt (snd p + snd q)"
  using assms unfolding inRange_def fitsInt_def by auto










subsection \<open>Claim C7: the bisection of \<^verbatim>\<open>getLocation\<close>\<close>





end
